theory Spec2Isabelle
  imports Complex_Main
begin

section \<open>Data model of the content store\<close>

text \<open>
  The bot keeps one MongoDB collection, \<open>movies\<close>. A document of that collection is a
  \<open>content\<close> record; its three nested arrays hold the deliverable releases. The elements
  of the arrays are the dictionaries the webhook builds (\<open>new_file\<close>, \<open>new_pack\<close>,
  \<open>new_episode\<close>), so their fields are always present.
\<close>

record file_entry =
  f_quality :: string
  f_message_id :: int

record pack =
  sp_season :: int
  sp_quality :: string
  sp_message_id :: int

record episode =
  ep_season :: int
  ep_episode_number :: int
  ep_message_id :: int

datatype content_type = Movie | Series

text \<open>
  \<open>doc_id\<close> is the document's \<open>_id\<close>, an ObjectId, kept as its 24 lower-case hexadecimal
  digits. A field that may be null or missing is an option; MongoDB's query
  \<open>{"tmdb_id": None}\<close> matches both, and so does \<open>None\<close> here.
\<close>

record content =
  doc_id :: string
  tmdb_id :: "int option"
  title :: string
  overview :: "string option"
  poster :: "string option"
  release_date :: "string option"
  vote_average :: "rat option"
  genres :: "string list"
  trailer_key :: "string option"
  ctype :: content_type
  languages :: "string list"
  episodes :: "episode list"
  season_packs :: "pack list"
  files :: "file_entry list"
  categories :: "string list"

text \<open>
  Modelled from the spec: the result of \<open>parse_filename\<close>, whose definition is not part of
  the source. The fields are the keys the webhook reads (\<open>title\<close>, \<open>type\<close>, \<open>year\<close>,
  \<open>season\<close>, \<open>episode\<close>, \<open>quality\<close>, \<open>languages\<close>), typed as the ParsedRelease of the
  data model. \<open>None\<close> is a key that is missing: \<open>parsed_info['season']\<close> raises KeyError
  on it, \<open>parsed_info.get('quality', 'HD')\<close> takes the default. \<open>p_type\<close> is the string the
  webhook compares with \<open>'movie'\<close>, \<open>'series_pack'\<close> and \<open>'series'\<close>.
\<close>

record parsed_info =
  p_title :: string
  p_type :: string
  p_year :: "int option"
  p_season :: "int option"
  p_episode :: "int option"
  p_quality :: "string option"
  p_languages :: "string list"

text \<open>
  Modelled from the spec: the result of \<open>get_tmdb_details_from_api\<close>, whose definition is
  not part of the source. The fields are those of ResolvedMetadata, under the keys the
  webhook and the notification read from the stored document.
\<close>

record tmdb_details =
  t_tmdb_id :: "int option"
  t_title :: string
  t_overview :: "string option"
  t_poster :: "string option"
  t_release_date :: "string option"
  t_vote_average :: "rat option"
  t_genres :: "string list"
  t_trailer_key :: "string option"

datatype exn = KeyError | ValueError | InvalidId | DuplicateKeyError | AttributeError
  | RequestException

section \<open>The collection operations the webhook uses\<close>

text \<open>\<open>find_one\<close> returns the first document, in insertion order, that matches.\<close>

definition find_one :: "(content \<Rightarrow> bool) \<Rightarrow> content list \<Rightarrow> content option" where
  "find_one P ms = List.find P ms"

text \<open>
  \<open>insert_one\<close> stores the document under the ObjectId the driver generated for it; the
  collection's unique index on \<open>_id\<close> refuses a second document with the same id.
\<close>

definition insert_one :: "content \<Rightarrow> content list \<Rightarrow> exn + content list" where
  "insert_one d ms =
     (if doc_id d \<in> set (map doc_id ms) then Inl DuplicateKeyError else Inr (ms @ [d]))"

text \<open>\<open>update_one({"_id": i}, u)\<close> applies the update to the first document with that id.\<close>

fun update_one :: "string \<Rightarrow> (content \<Rightarrow> content) \<Rightarrow> content list \<Rightarrow> content list" where
  "update_one i u [] = []"
| "update_one i u (m # ms) = (if doc_id m = i then u m # ms else m # update_one i u ms)"

text \<open>\<open>$pull\<close> removes every array element that matches the condition.\<close>

definition pull :: "('a \<Rightarrow> bool) \<Rightarrow> 'a list \<Rightarrow> 'a list" where
  "pull c xs = filter (\<lambda>x. \<not> c x) xs"

text \<open>\<open>$addToSet\<close> with \<open>$each\<close> appends, in order, each value the array does not hold yet.\<close>

fun addToSet :: "'a list \<Rightarrow> 'a list \<Rightarrow> 'a list" where
  "addToSet xs [] = xs"
| "addToSet xs (v # vs) = addToSet (if v \<in> set xs then xs else xs @ [v]) vs"

section \<open>Release merger\<close>

text \<open>
  The last part of the channel-post branch of \<open>telegram_webhook\<close>: the language union and
  the replace-by-key update of the nested array chosen by \<open>parsed_info['type']\<close>. The
  \<open>$pull\<close> is an update of its own, sent before the update that carries \<open>$addToSet\<close> and
  \<open>$push\<close>. A missing \<open>season\<close>, \<open>episode\<close> or (for a pack) \<open>quality\<close> key raises before
  anything is written.
\<close>

definition add_languages :: "parsed_info \<Rightarrow> content \<Rightarrow> content" where
  "add_languages parsed m =
     (if p_languages parsed = [] then m
      else m\<lparr>languages := addToSet (languages m) (p_languages parsed)\<rparr>)"

text \<open>\<open>parsed_info.get('quality', 'HD')\<close>.\<close>

definition quality_or_HD :: "parsed_info \<Rightarrow> string" where
  "quality_or_HD parsed = (case p_quality parsed of None \<Rightarrow> ''HD'' | Some q \<Rightarrow> q)"

definition merge_release ::
  "parsed_info \<Rightarrow> int \<Rightarrow> string \<Rightarrow> content list \<Rightarrow> exn + content list" where
  "merge_release parsed message_id cid ms =
     (if p_type parsed = ''movie'' then
        let new_file = \<lparr>f_quality = quality_or_HD parsed, f_message_id = message_id\<rparr>;
            ms1 = update_one cid
                    (\<lambda>m. m\<lparr>files := pull (\<lambda>f. f_quality f = f_quality new_file) (files m)\<rparr>) ms
        in Inr (update_one cid
                  (\<lambda>m. (add_languages parsed m)\<lparr>files := files m @ [new_file]\<rparr>) ms1)
      else if p_type parsed = ''series_pack'' then
        (case p_season parsed of None \<Rightarrow> Inl KeyError | Some s \<Rightarrow>
         (case p_quality parsed of None \<Rightarrow> Inl KeyError | Some q \<Rightarrow>
           let new_pack = \<lparr>sp_season = s, sp_quality = q, sp_message_id = message_id\<rparr>;
               ms1 = update_one cid
                       (\<lambda>m. m\<lparr>season_packs :=
                          pull (\<lambda>p. sp_season p = s \<and> sp_quality p = q) (season_packs m)\<rparr>) ms
           in Inr (update_one cid
                     (\<lambda>m. (add_languages parsed m)\<lparr>season_packs := season_packs m @ [new_pack]\<rparr>)
                     ms1)))
      else if p_type parsed = ''series'' then
        (case p_season parsed of None \<Rightarrow> Inl KeyError | Some s \<Rightarrow>
         (case p_episode parsed of None \<Rightarrow> Inl KeyError | Some e \<Rightarrow>
           let new_episode = \<lparr>ep_season = s, ep_episode_number = e, ep_message_id = message_id\<rparr>;
               ms1 = update_one cid
                       (\<lambda>m. m\<lparr>episodes :=
                          pull (\<lambda>x. ep_season x = s \<and> ep_episode_number x = e) (episodes m)\<rparr>) ms
           in Inr (update_one cid
                     (\<lambda>m. (add_languages parsed m)\<lparr>episodes := episodes m @ [new_episode]\<rparr>)
                     ms1)))
      else if p_languages parsed = [] then Inr ms
      else Inr (update_one cid (add_languages parsed) ms))"

text \<open>
  The keys a release of each kind is read with: a season pack needs \<open>season\<close> and
  \<open>quality\<close>, an episode \<open>season\<close> and \<open>episode\<close>. Without them the merge raises KeyError.
\<close>

definition keys_present :: "parsed_info \<Rightarrow> bool" where
  "keys_present parsed =
     ((p_type parsed = ''series_pack'' \<longrightarrow> p_season parsed \<noteq> None \<and> p_quality parsed \<noteq> None) \<and>
      (p_type parsed = ''series'' \<longrightarrow> p_season parsed \<noteq> None \<and> p_episode parsed \<noteq> None))"

text \<open>
  What the two updates of \<open>merge_release\<close> make of the one document they address
  (lemma \<open>merge_release_entry\<close> below).
\<close>

definition merged_entry :: "parsed_info \<Rightarrow> int \<Rightarrow> content \<Rightarrow> content" where
  "merged_entry parsed message_id m =
     (if p_type parsed = ''movie'' then
        (add_languages parsed m)\<lparr>files :=
           pull (\<lambda>f. f_quality f = quality_or_HD parsed) (files m) @
           [\<lparr>f_quality = quality_or_HD parsed, f_message_id = message_id\<rparr>]\<rparr>
      else if p_type parsed = ''series_pack'' then
        (case p_season parsed of None \<Rightarrow> m | Some s \<Rightarrow>
         (case p_quality parsed of None \<Rightarrow> m | Some q \<Rightarrow>
           (add_languages parsed m)\<lparr>season_packs :=
              pull (\<lambda>p. sp_season p = s \<and> sp_quality p = q) (season_packs m) @
              [\<lparr>sp_season = s, sp_quality = q, sp_message_id = message_id\<rparr>]\<rparr>))
      else if p_type parsed = ''series'' then
        (case p_season parsed of None \<Rightarrow> m | Some s \<Rightarrow>
         (case p_episode parsed of None \<Rightarrow> m | Some e \<Rightarrow>
           (add_languages parsed m)\<lparr>episodes :=
              pull (\<lambda>x. ep_season x = s \<and> ep_episode_number x = e) (episodes m) @
              [\<lparr>ep_season = s, ep_episode_number = e, ep_message_id = message_id\<rparr>]\<rparr>))
      else add_languages parsed m)"

section \<open>Strings, numbers and identifiers\<close>

text \<open>
  Text is a list of bytes. The string functions below are the Python ones on ASCII text;
  a character outside ASCII is neither a digit, nor white space, nor a letter with a case.
\<close>

definition digits :: string where
  "digits = ''0123456789''"

fun show_nat :: "nat \<Rightarrow> string" where
  "show_nat n = (if n < 10 then [digits ! n] else show_nat (n div 10) @ [digits ! (n mod 10)])"

declare show_nat.simps [simp del]

text \<open>\<open>str(i)\<close> for an integer.\<close>

definition show_int :: "int \<Rightarrow> string" where
  "show_int i = (if i < 0 then CHR ''-'' # show_nat (nat (- i)) else show_nat (nat i))"

text \<open>The format \<open>{n:02d}\<close>: the sign counts in the width of two.\<close>

definition show_int_02d :: "int \<Rightarrow> string" where
  "show_int_02d i = (if 0 \<le> i \<and> i < 10 then CHR ''0'' # show_int i else show_int i)"

definition digit_of :: "char \<Rightarrow> nat option" where
  "digit_of c = map_of (zip digits [0, 1, 2, 3, 4, 5, 6, 7, 8, 9]) c"

fun py_nat :: "nat \<Rightarrow> string \<Rightarrow> nat option" where
  "py_nat acc [] = Some acc"
| "py_nat acc (c # cs) =
     (case digit_of c of None \<Rightarrow> None | Some d \<Rightarrow> py_nat (10 * acc + d) cs)"

text \<open>
  \<open>int(s)\<close>: an optional sign and at least one digit, or ValueError (\<open>None\<close>). The callers
  pass pieces of a token that \<open>split()\<close> and \<open>split('_')\<close> have cut, so the white space
  and the digit separators that \<open>int\<close> tolerates cannot occur in its argument.
\<close>

definition py_int :: "string \<Rightarrow> int option" where
  "py_int s =
     (case s of
        [] \<Rightarrow> None
      | c # cs \<Rightarrow>
          if c = CHR ''-'' then (if cs = [] then None else map_option (\<lambda>n. - int n) (py_nat 0 cs))
          else if c = CHR ''+'' then (if cs = [] then None else map_option int (py_nat 0 cs))
          else map_option int (py_nat 0 s))"

text \<open>\<open>s.split(sep)\<close> with a separator of one character: never an empty list.\<close>

fun split_on :: "char \<Rightarrow> string \<Rightarrow> string list" where
  "split_on sep [] = [[]]"
| "split_on sep (c # cs) =
     (if c = sep then [] # split_on sep cs
      else (case split_on sep cs of [] \<Rightarrow> [[c]] | p # ps \<Rightarrow> (c # p) # ps))"

definition is_space :: "char \<Rightarrow> bool" where
  "is_space c = (c \<in> set [CHR '' '', CHR 0x09, CHR 0x0A, CHR 0x0B, CHR 0x0C, CHR 0x0D,
                            CHR 0x1C, CHR 0x1D, CHR 0x1E, CHR 0x1F])"

fun split_words :: "string \<Rightarrow> string \<Rightarrow> string list" where
  "split_words cur [] = (if cur = [] then [] else [cur])"
| "split_words cur (c # cs) =
     (if is_space c then (if cur = [] then split_words [] cs else cur # split_words [] cs)
      else split_words (cur @ [c]) cs)"

text \<open>\<open>s.split()\<close>: the maximal runs of characters that are not white space.\<close>

definition py_split :: "string \<Rightarrow> string list" where
  "py_split s = split_words [] s"

definition startswith :: "string \<Rightarrow> string \<Rightarrow> bool" where
  "startswith s pre = (take (length pre) s = pre)"

definition lower_char :: "char \<Rightarrow> char" where
  "lower_char c =
     (case List.find (\<lambda>(u, l). u = c) (zip ''ABCDEFGHIJKLMNOPQRSTUVWXYZ'' ''abcdefghijklmnopqrstuvwxyz'') of
        None \<Rightarrow> c | Some (u, l) \<Rightarrow> l)"

text \<open>Two texts that are equal up to the case of their ASCII letters.\<close>

definition ascii_caseless :: "string \<Rightarrow> string \<Rightarrow> bool" where
  "ascii_caseless t stored = (map lower_char stored = map lower_char t)"

definition is_hex :: "char \<Rightarrow> bool" where
  "is_hex c = (c \<in> set ''0123456789abcdefABCDEF'')"

text \<open>
  \<open>ObjectId(s)\<close> for a string: 24 hexadecimal digits, or InvalidId. Two ObjectIds are equal
  when their bytes are, so the digits are compared in lower case.
\<close>

definition ObjectId :: "string \<Rightarrow> exn + string" where
  "ObjectId s =
     (if length s = 24 \<and> list_all is_hex s then Inr (map lower_char s) else Inl InvalidId)"

text \<open>
  \<open>escape_markdown\<close>: a backslash before each character of the class
  \<open>[_*\[\]()~`>#+\-=|{}.!]\<close>.
\<close>

definition markdown_special :: "char \<Rightarrow> bool" where
  "markdown_special c = (c \<in> set ''_*[]()~`>#+-=|{}.!'')"

definition escape_markdown :: "string \<Rightarrow> string" where
  "escape_markdown text = concat (map (\<lambda>c. if markdown_special c then [CHR 0x5C, c] else [c]) text)"

fun join_with :: "string \<Rightarrow> string list \<Rightarrow> string" where
  "join_with sep [] = []"
| "join_with sep [x] = x"
| "join_with sep (x # y # ys) = x @ sep @ join_with sep (y # ys)"

definition PLACEHOLDER_POSTER :: string where
  "PLACEHOLDER_POSTER = ''https://via.placeholder.com/400x600.png?text=Poster+Not+Found''"

section \<open>The world outside: Telegram, the scheduler, the configuration\<close>

text \<open>
  A caption is kept as the data it is built from; the fixed decoration around it (emoji,
  the promotional footer of a delivery) is left out. \<open>NewContentCaption\<close> carries the
  title and the year, genre and rating lines, each present only when the source adds it.
\<close>

datatype caption =
    ComingSoonCaption string
  | NewContentCaption string "string option" "string option" "rat option"
  | DeliveryCaption string string

text \<open>
  The calls to the Telegram API, with the arguments that vary: \<open>SendPhoto\<close> chat, photo,
  caption and the URL of the keyboard's button (none for the empty keyboard);
  \<open>PinChatMessage\<close> chat and message; \<open>CopyMessage\<close> destination chat, source chat,
  message and caption; \<open>SendMessage\<close> chat, text and the URL of the keyboard's button;
  \<open>DeleteMessage\<close> chat and message.
\<close>

datatype request =
    SendPhoto string string caption "string option"
  | PinChatMessage string int
  | CopyMessage int string int caption
  | SendMessage int string "string option"
  | DeleteMessage int int

text \<open>
  What a call gives back: it raises (no connection, a timeout, a body that is not JSON), or
  it returns a JSON object, of which the code reads \<open>ok\<close> and \<open>result.message_id\<close>.
\<close>

datatype http_result = Raises | Json bool "int option"

text \<open>
  A pending job of the scheduler: its id, its run date (in seconds) and the arguments
  \<open>[chat_id, message_id]\<close> of \<open>delete_message_after_delay\<close>.
\<close>

record job =
  job_id :: string
  run_date :: int
  job_args :: "int \<times> int"

text \<open>
  The state the webhook reads and writes: the collection, the log of the calls made to
  Telegram (in order) and the scheduler's pending jobs.
\<close>

record world =
  movies :: "content list"
  sent :: "request list"
  jobs :: "job list"

text \<open>
  What one run of the webhook is given from outside: the configuration, the two functions
  that are not part of the source (\<open>parse_filename\<close>, \<open>get_tmdb_details_from_api\<close>), the
  ObjectId the driver generates for an inserted document, Telegram's answer to each call,
  the clock (in seconds), and \<open>caseless\<close>: whether the regular-expression engine of the
  database, under the option \<open>i\<close>, matches a literal pattern against the whole of a text,
  that is, whether the two are equal up to the case folding the engine applies.
\<close>

record env =
  ADMIN_CHANNEL_ID :: string
  NOTIFICATION_CHANNEL_ID :: "string option"
  BOT_USERNAME :: string
  parse_filename :: "string \<Rightarrow> parsed_info option"
  get_tmdb_details_from_api :: "string \<Rightarrow> string \<Rightarrow> int option \<Rightarrow> tmdb_details option"
  new_oid :: string
  http :: "request \<Rightarrow> http_result"
  now :: int
  caseless :: "string \<Rightarrow> string \<Rightarrow> bool"

definition http_call :: "env \<Rightarrow> request \<Rightarrow> world \<Rightarrow> http_result \<times> world" where
  "http_call env rq w = (http env rq, w\<lparr>sent := sent w @ [rq]\<rparr>)"

text \<open>
  The query \<open>{"$regex": "^" + re.escape(t) + "$", "$options": "i"}\<close> on the title: the
  pattern is the parsed title with every special character escaped, between the two
  anchors and without the multi-line option. \<open>^\<close> matches at the start of the stored title
  only; \<open>$\<close> matches at its end, and also before a line feed that is its last character.
  So the pattern matches a stored title that is \<open>t\<close> up to case, and one that is \<open>t\<close> up to
  case followed by one final line feed.
\<close>

definition title_matches :: "env \<Rightarrow> string \<Rightarrow> string \<Rightarrow> bool" where
  "title_matches env t stored =
     (caseless env t stored \<or>
      (stored \<noteq> [] \<and> last stored = CHR 0x0A \<and> caseless env t (butlast stored)))"

definition movie_url :: "string \<Rightarrow> string" where
  "movie_url i = ''/movie/'' @ i"

section \<open>Notification dispatcher\<close>

text \<open>
  The caption and the keyboard of \<open>send_notification_to_channel\<close>. A null
  \<open>release_date\<close> has no \<open>split\<close>: AttributeError, caught by the function's handler.
\<close>

definition notification_caption :: "content \<Rightarrow> exn + caption \<times> string option" where
  "notification_caption m =
     (if ''Coming Soon'' \<in> set (categories m) then Inr (ComingSoonCaption (title m), None)
      else
        (case release_date m of
           None \<Rightarrow> Inl AttributeError
         | Some d \<Rightarrow>
             let year = takeWhile (\<lambda>c. c \<noteq> CHR ''-'') d;
                 gs = join_with '', '' (genres m)
             in Inr (NewContentCaption (title m)
                       (if year = [] then None else Some year)
                       (if gs = [] then None else Some gs)
                       (case vote_average m of None \<Rightarrow> None
                        | Some r \<Rightarrow> if r = 0 then None else Some r),
                     Some (movie_url (doc_id m)))))"

text \<open>
  \<open>send_notification_to_channel\<close>. Every exception inside it is caught and printed, so it
  only ever returns; what it leaves behind are the calls it made.
\<close>

definition send_notification_to_channel :: "env \<Rightarrow> content option \<Rightarrow> world \<Rightarrow> world" where
  "send_notification_to_channel env movie_data w =
     (case NOTIFICATION_CHANNEL_ID env of
        None \<Rightarrow> w
      | Some channel \<Rightarrow>
          if channel = [] then w
          else
            (case movie_data of
               None \<Rightarrow> w
             | Some m \<Rightarrow>
                 let is_coming_soon = (''Coming Soon'' \<in> set (categories m)) in
                 (case poster m of
                    None \<Rightarrow> w
                  | Some poster_url \<Rightarrow>
                      if poster_url = [] \<or> poster_url = PLACEHOLDER_POSTER then w
                      else
                        (case notification_caption m of
                           Inl e \<Rightarrow> w
                         | Inr (cap, keyboard) \<Rightarrow>
                             let (response, w1) =
                                   http_call env (SendPhoto channel poster_url cap keyboard) w
                             in (case response of
                                   Raises \<Rightarrow> w1
                                 | Json ok result_message_id \<Rightarrow>
                                     if ok then
                                       if ''Trending Now'' \<in> set (categories m) \<and> \<not> is_coming_soon
                                       then (case result_message_id of
                                               None \<Rightarrow> w1
                                             | Some message_id \<Rightarrow>
                                                 snd (http_call env
                                                        (PinChatMessage channel message_id) w1))
                                       else w1
                                     else w1)))))"

text \<open>The two kinds of call that only an entry with categories can cause.\<close>

fun is_teaser :: "request \<Rightarrow> bool" where
  "is_teaser (SendPhoto channel photo (ComingSoonCaption t) keyboard) = True"
| "is_teaser rq = False"

fun is_pin :: "request \<Rightarrow> bool" where
  "is_pin (PinChatMessage channel message_id) = True"
| "is_pin rq = False"

fun is_copy :: "request \<Rightarrow> bool" where
  "is_copy (CopyMessage chat_id from_chat message_id cap) = True"
| "is_copy rq = False"

section \<open>Content reconciler\<close>

text \<open>
  \<open>get_or_create_content_entry\<close>, the function nested in the webhook. It returns the
  entry (or \<open>None\<close>, when the read after the insert finds nothing), or the exception of a
  refused insert, and the world it leaves.
\<close>

text \<open>
  The test \<open>tmdb_details and tmdb_details.get("tmdb_id")\<close>: there are details, and their
  \<open>tmdb_id\<close> is neither missing nor zero.
\<close>

definition tmdb_found :: "tmdb_details option \<Rightarrow> (tmdb_details \<times> int) option" where
  "tmdb_found tmdb =
     (case tmdb of
        None \<Rightarrow> None
      | Some t \<Rightarrow> (case t_tmdb_id t of
                    None \<Rightarrow> None
                  | Some i \<Rightarrow> if i = 0 then None else Some (t, i)))"

definition get_or_create_content_entry ::
  "env \<Rightarrow> tmdb_details option \<Rightarrow> parsed_info \<Rightarrow> world \<Rightarrow> (exn + content option) \<times> world" where
  "get_or_create_content_entry env tmdb parsed_details w =
     (case tmdb_found tmdb of
        Some (t, i) \<Rightarrow>
          (case find_one (\<lambda>m. tmdb_id m = Some i) (movies w) of
             Some existing_entry \<Rightarrow> (Inr (Some existing_entry), w)
           | None \<Rightarrow>
               let base_doc =
                     \<lparr>doc_id = new_oid env, tmdb_id = t_tmdb_id t, title = t_title t,
                      overview = t_overview t, poster = t_poster t,
                      release_date = t_release_date t, vote_average = t_vote_average t,
                      genres = t_genres t, trailer_key = t_trailer_key t,
                      ctype = (if p_type parsed_details = ''movie'' then Movie else Series),
                      languages = [], episodes = [], season_packs = [], files = [],
                      categories = []\<rparr>
               in (case insert_one base_doc (movies w) of
                     Inl e \<Rightarrow> (Inl e, w)
                   | Inr ms \<Rightarrow>
                       let w1 = w\<lparr>movies := ms\<rparr>;
                           newly_created_doc = find_one (\<lambda>m. tmdb_id m = Some i) ms
                       in (Inr newly_created_doc,
                           send_notification_to_channel env newly_created_doc w1)))
      | None \<Rightarrow>
          (case find_one (\<lambda>m. title_matches env (p_title parsed_details) (title m) \<and>
                               tmdb_id m = None)
                  (movies w) of
             Some existing_entry \<Rightarrow> (Inr (Some existing_entry), w)
           | None \<Rightarrow>
               let shell_doc =
                     \<lparr>doc_id = new_oid env, tmdb_id = None, title = p_title parsed_details,
                      overview = Some ''Details will be updated soon.'',
                      poster = Some PLACEHOLDER_POSTER,
                      release_date = None, vote_average = Some 0,
                      genres = [], trailer_key = None,
                      ctype = (if p_type parsed_details = ''movie'' then Movie else Series),
                      languages = [], episodes = [], season_packs = [], files = [],
                      categories = []\<rparr>
               in (case insert_one shell_doc (movies w) of
                     Inl e \<Rightarrow> (Inl e, w)
                   | Inr ms \<Rightarrow>
                       let w1 = w\<lparr>movies := ms\<rparr>;
                           newly_created_doc = find_one (\<lambda>m. doc_id m = doc_id shell_doc) ms
                       in (Inr newly_created_doc,
                           send_notification_to_channel env newly_created_doc w1))))"

section \<open>Deep-link resolver\<close>

text \<open>
  The three branches of the \<open>/start\<close> handler that look the target up in the entry:
  \<open>message_to_copy_id\<close> (initially \<open>None\<close>) and \<open>file_info_text\<close> (initially empty).
  \<open>next(..., None)\<close> takes the first element that matches. \<open>int\<close> raises ValueError.
\<close>

definition resolve_target :: "content \<Rightarrow> string list \<Rightarrow> exn + int option \<times> string" where
  "resolve_target content payload_parts =
     (if length payload_parts = 3 \<and> startswith (payload_parts ! 1) ''S'' then
        (case py_int (drop 1 (payload_parts ! 1)) of
           None \<Rightarrow> Inl ValueError
         | Some season_num \<Rightarrow>
             let quality = payload_parts ! 2 in
             (case List.find (\<lambda>p. sp_season p = season_num \<and> sp_quality p = quality)
                     (season_packs content) of
                None \<Rightarrow> Inr (None, [])
              | Some pack \<Rightarrow>
                  Inr (Some (sp_message_id pack),
                       ''Complete Season '' @ show_int season_num @ '' ('' @ quality @ '')'')))
      else if ctype content = Series \<and> length payload_parts = 3 then
        (case py_int (payload_parts ! 1) of
           None \<Rightarrow> Inl ValueError
         | Some s_num \<Rightarrow>
             (case py_int (payload_parts ! 2) of
                None \<Rightarrow> Inl ValueError
              | Some e_num \<Rightarrow>
                  (case List.find (\<lambda>ep. ep_season ep = s_num \<and> ep_episode_number ep = e_num)
                          (episodes content) of
                     None \<Rightarrow> Inr (None, [])
                   | Some episode \<Rightarrow>
                       Inr (Some (ep_message_id episode),
                            ''S'' @ show_int_02d s_num @ ''E'' @ show_int_02d e_num))))
      else if ctype content = Movie \<and> length payload_parts = 2 then
        (let quality = payload_parts ! 1 in
         case List.find (\<lambda>f. f_quality f = quality) (files content) of
           None \<Rightarrow> Inr (None, [])
         | Some file \<Rightarrow> Inr (Some (f_message_id file), ''('' @ quality @ '')''))
      else Inr (None, []))"

section \<open>Delivery scheduler\<close>

text \<open>
  \<open>scheduler.add_job(..., id=..., replace_existing=True)\<close>: a pending job with the same id
  is replaced by the new one.
\<close>

definition add_job :: "job \<Rightarrow> job list \<Rightarrow> job list" where
  "add_job j js = filter (\<lambda>x. job_id x \<noteq> job_id j) js @ [j]"

definition deletion_job_id :: "int \<Rightarrow> int \<Rightarrow> string" where
  "deletion_job_id chat_id new_msg_id = ''del_'' @ show_int chat_id @ ''_'' @ show_int new_msg_id"

text \<open>\<open>delete_message_after_delay\<close>: one call, its exception caught.\<close>

definition delete_message_after_delay :: "env \<Rightarrow> int \<Rightarrow> int \<Rightarrow> world \<Rightarrow> world" where
  "delete_message_after_delay env chat_id message_id w =
     snd (http_call env (DeleteMessage chat_id message_id) w)"

fun run_jobs :: "env \<Rightarrow> job list \<Rightarrow> world \<Rightarrow> world" where
  "run_jobs env [] w = w"
| "run_jobs env (j # js) w =
     run_jobs env js (delete_message_after_delay env (fst (job_args j)) (snd (job_args j)) w)"

text \<open>
  The scheduler's side of a job with the trigger \<open>'date'\<close>: when the clock has reached its
  run date the job runs, and it leaves the pending jobs.
\<close>

definition scheduler_wakeup :: "env \<Rightarrow> world \<Rightarrow> world" where
  "scheduler_wakeup env w =
     run_jobs env (filter (\<lambda>j. run_date j \<le> now env) (jobs w))
       (w\<lparr>jobs := filter (\<lambda>j. \<not> run_date j \<le> now env) (jobs w)\<rparr>)"

text \<open>The job the webhook submits after a copy: it runs 30 minutes from now.\<close>

definition deletion_job :: "env \<Rightarrow> int \<Rightarrow> int \<Rightarrow> job" where
  "deletion_job env chat_id new_msg_id =
     \<lparr>job_id = deletion_job_id chat_id new_msg_id, run_date = now env + 30 * 60,
      job_args = (chat_id, new_msg_id)\<rparr>"

text \<open>The \<open>copyMessage\<close> call of a delivery, from the source channel to the requester.\<close>

definition copy_request :: "env \<Rightarrow> int \<Rightarrow> content \<Rightarrow> int \<Rightarrow> string \<Rightarrow> request" where
  "copy_request env chat_id content i file_info_text =
     CopyMessage chat_id (ADMIN_CHANNEL_ID env) i
       (DeliveryCaption (escape_markdown (title content)) (escape_markdown file_info_text))"

text \<open>The three plain-text notices of the \<open>/start\<close> handler.\<close>

definition copy_failed_notice :: "int \<Rightarrow> request" where
  "copy_failed_notice chat_id =
     SendMessage chat_id ''Error sending file. It might have been deleted from the channel.'' None"

definition not_found_notice :: "int \<Rightarrow> request" where
  "not_found_notice chat_id = SendMessage chat_id ''Requested file/season not found.'' None"

definition unexpected_error_notice :: "int \<Rightarrow> request" where
  "unexpected_error_notice chat_id = SendMessage chat_id ''An unexpected error occurred.'' None"

text \<open>The test \<open>if message_to_copy_id\<close>: an id that is neither \<open>None\<close> nor zero.\<close>

definition truthy_id :: "int option \<Rightarrow> int option" where
  "truthy_id x = (case x of None \<Rightarrow> None | Some i \<Rightarrow> if i = 0 then None else Some i)"

text \<open>
  The body of the \<open>try\<close> of the \<open>/start\<close> handler, for a command with a payload
  (\<open>parts[1]\<close>). \<open>Inr ()\<close> is the end of the body or its \<open>return jsonify(status='ok')\<close>,
  which give the same response; \<open>Inl\<close> is an exception raised inside the body.
\<close>

definition start_payload :: "env \<Rightarrow> int \<Rightarrow> string \<Rightarrow> world \<Rightarrow> (exn + unit) \<times> world" where
  "start_payload env chat_id payload w =
     (let payload_parts = split_on CHR ''_'' payload;
          doc_id_str = payload_parts ! 0
      in case ObjectId doc_id_str of
           Inl e \<Rightarrow> (Inl e, w)
         | Inr oid \<Rightarrow>
             (case find_one (\<lambda>m. doc_id m = oid) (movies w) of
                None \<Rightarrow> (Inr (), w)
              | Some content \<Rightarrow>
                  (case resolve_target content payload_parts of
                     Inl e \<Rightarrow> (Inl e, w)
                   | Inr (message_to_copy_id, file_info_text) \<Rightarrow>
                       (case truthy_id message_to_copy_id of
                          Some i \<Rightarrow>
                            let (res, w1) = http_call env
                                  (copy_request env chat_id content i file_info_text) w
                            in (case res of
                                  Raises \<Rightarrow> (Inl RequestException, w1)
                                | Json ok result_message_id \<Rightarrow>
                                    if ok then
                                      (case result_message_id of
                                         None \<Rightarrow> (Inl KeyError, w1)
                                       | Some new_msg_id \<Rightarrow>
                                           (Inr (),
                                            w1\<lparr>jobs := add_job
                                               (deletion_job env chat_id new_msg_id) (jobs w1)\<rparr>))
                                    else
                                      (case http_call env (copy_failed_notice chat_id) w1 of
                                         (Raises, w2) \<Rightarrow> (Inl RequestException, w2)
                                       | (Json a b, w2) \<Rightarrow> (Inr (), w2)))
                        | None \<Rightarrow>
                            (case http_call env (not_found_notice chat_id) w of
                               (Raises, w1) \<Rightarrow> (Inl RequestException, w1)
                             | (Json a b, w1) \<Rightarrow> (Inr (), w1))))))"

section \<open>The webhook\<close>

text \<open>
  The two updates the webhook handles. A channel post carries the id of its chat (if any),
  the \<open>file_name\<close> of its \<open>video\<close> and of its \<open>document\<close> (the outer option: the object is
  there; the inner one: it has a file name) and its message id. A message carries the id
  of its chat and its text.
\<close>

record channel_post =
  post_chat_id :: "int option"
  post_video :: "string option option"
  post_document :: "string option option"
  post_message_id :: int

record message =
  msg_chat_id :: int
  msg_text :: "string option"

datatype update = ChannelPost channel_post | Message message | OtherUpdate

text \<open>\<open>jsonify(status=..., reason=...)\<close>.\<close>

datatype response = Response string "string option"

definition welcome_message :: "env \<Rightarrow> string" where
  "welcome_message env =
     [CHR 0xF0, CHR 0x9F, CHR 0x91, CHR 0x8B] @ '' Welcome to '' @ BOT_USERNAME env @ ''!'' @
     [CHR 0x0A, CHR 0x0A] @ ''Browse all our content on our website.''"

text \<open>\<open>str(post.get('chat', {}).get('id'))\<close>.\<close>

definition post_chat_str :: "channel_post \<Rightarrow> string" where
  "post_chat_str post = (case post_chat_id post of None \<Rightarrow> ''None'' | Some i \<Rightarrow> show_int i)"

text \<open>
  \<open>file = post.get('video') or post.get('document')\<close> and the test
  \<open>file and file.get('file_name')\<close>: the non-empty file name of the video if there is a
  video, else of the document.
\<close>

definition post_file_name :: "channel_post \<Rightarrow> string option" where
  "post_file_name post =
     (case (case post_video post of Some v \<Rightarrow> Some v | None \<Rightarrow> post_document post) of
        None \<Rightarrow> None
      | Some None \<Rightarrow> None
      | Some (Some n) \<Rightarrow> if n = [] then None else Some n)"

text \<open>
  \<open>parse_filename(filename)\<close> and the test \<open>not parsed_info or not
  parsed_info.get('title')\<close>.
\<close>

definition parsed_with_title :: "env \<Rightarrow> string \<Rightarrow> parsed_info option" where
  "parsed_with_title env filename =
     (case parse_filename env filename of
        None \<Rightarrow> None
      | Some p \<Rightarrow> if p_title p = [] then None else Some p)"

definition handle_channel_post :: "env \<Rightarrow> channel_post \<Rightarrow> world \<Rightarrow> (exn + response) \<times> world" where
  "handle_channel_post env post w =
     (if post_chat_str post \<noteq> ADMIN_CHANNEL_ID env
      then (Inr (Response ''ok'' (Some ''not_admin_channel'')), w)
      else
        (case post_file_name post of
           None \<Rightarrow> (Inr (Response ''ok'' (Some ''no_file_in_post'')), w)
         | Some filename \<Rightarrow>
             (case parsed_with_title env filename of
                None \<Rightarrow> (Inr (Response ''ok'' (Some ''parsing_failed'')), w)
              | Some parsed_info \<Rightarrow>
                  let tmdb_data = get_tmdb_details_from_api env (p_title parsed_info)
                                    (p_type parsed_info) (p_year parsed_info)
                  in (case get_or_create_content_entry env tmdb_data parsed_info w of
                        (Inl e, w1) \<Rightarrow> (Inl e, w1)
                      | (Inr None, w1) \<Rightarrow> (Inr (Response ''error'' (Some ''db_entry_failed'')), w1)
                      | (Inr (Some content_entry), w1) \<Rightarrow>
                          (case merge_release parsed_info (post_message_id post)
                                  (doc_id content_entry) (movies w1) of
                             Inl e \<Rightarrow> (Inl e, w1)
                           | Inr ms \<Rightarrow> (Inr (Response ''ok'' None), w1\<lparr>movies := ms\<rparr>))))))"

definition handle_message :: "env \<Rightarrow> message \<Rightarrow> world \<Rightarrow> (exn + response) \<times> world" where
  "handle_message env message w =
     (let chat_id = msg_chat_id message;
          text = (case msg_text message of None \<Rightarrow> [] | Some t \<Rightarrow> t)
      in if startswith text ''/start'' then
           (let parts = py_split text in
            if length parts > 1 then
              (case start_payload env chat_id (parts ! 1) w of
                 (Inr u, w1) \<Rightarrow> (Inr (Response ''ok'' None), w1)
               | (Inl e, w1) \<Rightarrow>
                   (case http_call env (unexpected_error_notice chat_id) w1 of
                      (Raises, w2) \<Rightarrow> (Inl RequestException, w2)
                    | (Json a b, w2) \<Rightarrow> (Inr (Response ''ok'' None), w2)))
            else
              (case http_call env (SendMessage chat_id (welcome_message env) (Some ''/'')) w of
                 (Json a b, w1) \<Rightarrow> (Inr (Response ''ok'' None), w1)
               | (Raises, w1) \<Rightarrow>
                   (case http_call env (SendMessage chat_id (welcome_message env) None) w1 of
                      (Raises, w2) \<Rightarrow> (Inl RequestException, w2)
                    | (Json a b, w2) \<Rightarrow> (Inr (Response ''ok'' None), w2))))
         else (Inr (Response ''ok'' None), w))"

text \<open>\<open>telegram_webhook\<close>: the response or the exception that leaves it, and the world after.\<close>

definition telegram_webhook :: "env \<Rightarrow> update \<Rightarrow> world \<Rightarrow> (exn + response) \<times> world" where
  "telegram_webhook env data w =
     (case data of
        ChannelPost post \<Rightarrow> handle_channel_post env post w
      | Message message \<Rightarrow> handle_message env message w
      | OtherUpdate \<Rightarrow> (Inr (Response ''ok'' None), w))"

section \<open>Example data\<close>

text \<open>
  A catalogue-backed movie with no file yet, a series with one episode and one season pack,
  and the parsed releases that the examples below ingest.
\<close>

definition movie_oid :: string where
  "movie_oid = ''64b7f3a2c1d4e5f6a7b8c9d0''"

definition series_oid :: string where
  "series_oid = ''64b7f3a2c1d4e5f6a7b8c9d1''"

definition example_movie :: content where
  "example_movie =
     \<lparr>doc_id = movie_oid, tmdb_id = Some 603, title = ''Example Movie'',
      overview = Some ''An example.'', poster = Some ''https://image.tmdb.org/t/p/w500/m.jpg'',
      release_date = Some ''2021-03-04'', vote_average = Some (15 / 2),
      genres = [''Action'', ''Drama''], trailer_key = None, ctype = Movie,
      languages = [''Hindi''], episodes = [], season_packs = [], files = [],
      categories = []\<rparr>"

definition example_series :: content where
  "example_series =
     \<lparr>doc_id = series_oid, tmdb_id = Some 1399, title = ''Show Name'',
      overview = Some ''A show.'', poster = Some ''https://image.tmdb.org/t/p/w500/s.jpg'',
      release_date = Some ''2019-01-01'', vote_average = Some 8,
      genres = [''Drama''], trailer_key = None, ctype = Series,
      languages = [], 
      episodes = [\<lparr>ep_season = 1, ep_episode_number = 2, ep_message_id = 90\<rparr>,
                  \<lparr>ep_season = 1, ep_episode_number = 3, ep_message_id = 100\<rparr>],
      season_packs = [\<lparr>sp_season = 2, sp_quality = ''1080p'', sp_message_id = 200\<rparr>],
      files = [], categories = []\<rparr>"

definition parsed_movie_1080p :: parsed_info where
  "parsed_movie_1080p =
     \<lparr>p_title = ''Example Movie'', p_type = ''movie'', p_year = Some 2021, p_season = None,
      p_episode = None, p_quality = Some ''1080p'', p_languages = [''Hindi'', ''English'']\<rparr>"


definition parsed_episode_1_3 :: parsed_info where
  "parsed_episode_1_3 =
     \<lparr>p_title = ''Show Name'', p_type = ''series'', p_year = None, p_season = Some 1,
      p_episode = Some 3, p_quality = Some ''720p'', p_languages = []\<rparr>"

definition parsed_unknown :: parsed_info where
  "parsed_unknown =
     \<lparr>p_title = ''Unknown Film'', p_type = ''movie'', p_year = None, p_season = None,
      p_episode = None, p_quality = None, p_languages = []\<rparr>"

definition example_tmdb :: tmdb_details where
  "example_tmdb =
     \<lparr>t_tmdb_id = Some 603, t_title = ''Example Movie'', t_overview = Some ''Fresh text.'',
      t_poster = Some ''https://image.tmdb.org/t/p/w500/new.jpg'',
      t_release_date = Some ''2021-03-05'', t_vote_average = Some 7,
      t_genres = [''Action''], t_trailer_key = None\<rparr>"

definition other_tmdb :: tmdb_details where
  "other_tmdb =
     \<lparr>t_tmdb_id = Some 27205, t_title = ''Other Movie'', t_overview = Some ''Another.'',
      t_poster = Some ''https://image.tmdb.org/t/p/w500/o.jpg'',
      t_release_date = Some ''2010-07-16'', t_vote_average = Some (42 / 5),
      t_genres = [''Action'', ''Adventure''], t_trailer_key = None\<rparr>"

text \<open>
  An environment in which Telegram accepts every call but the copy of message 100, and
  answers a photo with message 900 and a copy with message 901.
\<close>

definition example_http :: "request \<Rightarrow> http_result" where
  "example_http rq =
     (case rq of
        SendPhoto channel photo cap keyboard \<Rightarrow> Json True (Some 900)
      | PinChatMessage channel message_id \<Rightarrow> Json True None
      | CopyMessage chat_id from_chat message_id cap \<Rightarrow>
          if message_id = 100 then Json False None else Json True (Some 901)
      | SendMessage chat_id txt keyboard \<Rightarrow> Json True None
      | DeleteMessage chat_id message_id \<Rightarrow> Json True None)"

definition example_env :: env where
  "example_env =
     \<lparr>ADMIN_CHANNEL_ID = ''-1001'', NOTIFICATION_CHANNEL_ID = Some ''-1002'',
      BOT_USERNAME = ''ExampleBot'',
      parse_filename = (\<lambda>f. if f = ''Example.Movie.2021.1080p.WEB-DL.mkv''
                              then Some parsed_movie_1080p
                              else if f = ''Show.Name.S01E03.720p.mkv''
                              then Some parsed_episode_1_3 else None),
      get_tmdb_details_from_api = (\<lambda>t k y. if t = ''Example Movie'' then Some example_tmdb
                                             else None),
      new_oid = ''64b7f3a2c1d4e5f6a7b8c9d2'', http = example_http, now = 1000,
      caseless = ascii_caseless\<rparr>"

definition example_world :: world where
  "example_world = \<lparr>movies = [example_movie, example_series], sent = [], jobs = []\<rparr>"

text \<open>
  Two shell entries, one under another title and one whose title ends in a line feed, and
  the collections that hold them.
\<close>

definition other_shell :: content where
  "other_shell =
     \<lparr>doc_id = ''64b7f3a2c1d4e5f6a7b8c9d3'', tmdb_id = None, title = ''Another Film'',
      overview = Some ''Details will be updated soon.'', poster = Some PLACEHOLDER_POSTER,
      release_date = None, vote_average = Some 0, genres = [], trailer_key = None,
      ctype = Movie, languages = [], episodes = [], season_packs = [],
      files = [\<lparr>f_quality = ''HD'', f_message_id = 30\<rparr>], categories = []\<rparr>"

definition newline_shell :: content where
  "newline_shell = other_shell\<lparr>title := ''Unknown Film'' @ [CHR 0x0A]\<rparr>"

definition shell_world :: world where
  "shell_world = \<lparr>movies = [example_movie, other_shell], sent = [], jobs = []\<rparr>"

definition newline_world :: world where
  "newline_world = \<lparr>movies = [newline_shell], sent = [], jobs = []\<rparr>"

text \<open>The same environment with Telegram out of reach: every call raises.\<close>

definition offline_env :: env where
  "offline_env = example_env\<lparr>http := (\<lambda>rq. Raises)\<rparr>"

definition foreign_post :: channel_post where
  "foreign_post =
     \<lparr>post_chat_id = Some (- 2002),
      post_video = Some (Some ''Example.Movie.2021.1080p.WEB-DL.mkv''),
      post_document = None, post_message_id = 41\<rparr>"

definition unparsable_post :: channel_post where
  "unparsable_post =
     \<lparr>post_chat_id = Some (- 1001), post_video = None,
      post_document = Some (Some ''notes.txt''), post_message_id = 42\<rparr>"

section \<open>Lemmas on the collection operations\<close>


lemma find_one_update_one:
  "find_one (\<lambda>m. doc_id m = i) ms = Some m \<Longrightarrow> doc_id (u m) = i \<Longrightarrow>
   find_one (\<lambda>m. doc_id m = i) (update_one i u ms) = Some (u m)"
  by (induction ms) (simp_all add: find_one_def split: if_splits)

lemma find_one_doc_id: "find_one (\<lambda>m. doc_id m = i) ms = Some m \<Longrightarrow> doc_id m = i"
  by (induction ms) (simp_all add: find_one_def split: if_splits)

lemma doc_id_add_languages: "doc_id (add_languages parsed m) = doc_id m"
  by (simp add: add_languages_def)

lemma addToSet_append:
  "\<exists>ys. addToSet xs vs = xs @ ys \<and> distinct ys \<and> set ys = set vs - set xs"
proof (induction vs arbitrary: xs)
  case Nil
  then show ?case by simp
next
  case (Cons v vs)
  show ?case
  proof (cases "v \<in> set xs")
    case True
    from Cons.IH [of xs] obtain ys where
      ys: "addToSet xs vs = xs @ ys" "distinct ys" "set ys = set vs - set xs"
      by blast
    from True ys(1) have 1: "addToSet xs (v # vs) = xs @ ys" by simp
    from True ys(3) have 3: "set ys = set (v # vs) - set xs" by auto
    show ?thesis by (rule exI [of _ ys]) (simp only: 1 ys(2) 3 simp_thms)
  next
    case False
    from Cons.IH [of "xs @ [v]"] obtain ys where
      ys: "addToSet (xs @ [v]) vs = (xs @ [v]) @ ys" "distinct ys"
        "set ys = set vs - set (xs @ [v])"
      by blast
    from False ys(1) have 1: "addToSet xs (v # vs) = xs @ (v # ys)" by simp
    from ys(2,3) have 2: "distinct (v # ys)" by simp
    from False ys(3) have 3: "set (v # ys) = set (v # vs) - set xs" by auto
    show ?thesis by (rule exI [of _ "v # ys"]) (simp only: 1 2 3 simp_thms)
  qed
qed

lemma set_addToSet: "set (addToSet xs vs) = set xs \<union> set vs"
proof -
  obtain ys where "addToSet xs vs = xs @ ys" "set ys = set vs - set xs"
    using addToSet_append [of xs vs] by blast
  then show ?thesis by auto
qed

lemma distinct_addToSet: "distinct xs \<Longrightarrow> distinct (addToSet xs vs)"
proof -
  assume d: "distinct xs"
  obtain ys where "addToSet xs vs = xs @ ys" "distinct ys" "set ys = set vs - set xs"
    using addToSet_append [of xs vs] by blast
  with d show ?thesis by auto
qed

section \<open>The merge, seen from the entry\<close>

lemma merge_release_entry:
  assumes f: "find_one (\<lambda>m. doc_id m = cid) ms = Some m" and k: "keys_present parsed"
  shows "\<exists>ms'. merge_release parsed message_id cid ms = Inr ms' \<and>
           find_one (\<lambda>m. doc_id m = cid) ms' = Some (merged_entry parsed message_id m)"
proof -
  have i: "doc_id m = cid" using f by (rule find_one_doc_id)
  consider (movie) "p_type parsed = ''movie''"
    | (pack) "p_type parsed = ''series_pack''"
    | (series) "p_type parsed = ''series''"
    | (other) "p_type parsed \<noteq> ''movie''" "p_type parsed \<noteq> ''series_pack''"
        "p_type parsed \<noteq> ''series''"
    by blast
  then show ?thesis
  proof cases
    case movie
    let ?q = "quality_or_HD parsed"
    let ?u1 = "\<lambda>m. m\<lparr>files := pull (\<lambda>f. f_quality f = ?q) (files m)\<rparr>"
    let ?u2 = "\<lambda>m. (add_languages parsed m)\<lparr>files :=
                 files m @ [\<lparr>f_quality = ?q, f_message_id = message_id\<rparr>]\<rparr>"
    have 1: "find_one (\<lambda>m. doc_id m = cid) (update_one cid ?u1 ms) = Some (?u1 m)"
      using find_one_update_one [where u = "?u1", OF f] i by simp
    have 2: "find_one (\<lambda>m. doc_id m = cid) (update_one cid ?u2 (update_one cid ?u1 ms))
             = Some (?u2 (?u1 m))"
      using find_one_update_one [where u = "?u2", OF 1] i by (simp add: doc_id_add_languages)
    have 3: "?u2 (?u1 m) = merged_entry parsed message_id m"
      using movie by (simp add: merged_entry_def add_languages_def)
    show ?thesis using movie 2 3 by (simp add: merge_release_def Let_def)
  next
    case pack
    then obtain s q where sq: "p_season parsed = Some s" "p_quality parsed = Some q"
      using k by (auto simp: keys_present_def)
    let ?u1 = "\<lambda>m. m\<lparr>season_packs :=
                 pull (\<lambda>p. sp_season p = s \<and> sp_quality p = q) (season_packs m)\<rparr>"
    let ?u2 = "\<lambda>m. (add_languages parsed m)\<lparr>season_packs := season_packs m @
                 [\<lparr>sp_season = s, sp_quality = q, sp_message_id = message_id\<rparr>]\<rparr>"
    have 1: "find_one (\<lambda>m. doc_id m = cid) (update_one cid ?u1 ms) = Some (?u1 m)"
      using find_one_update_one [where u = "?u1", OF f] i by simp
    have 2: "find_one (\<lambda>m. doc_id m = cid) (update_one cid ?u2 (update_one cid ?u1 ms))
             = Some (?u2 (?u1 m))"
      using find_one_update_one [where u = "?u2", OF 1] i by (simp add: doc_id_add_languages)
    have 3: "?u2 (?u1 m) = merged_entry parsed message_id m"
      using pack sq by (simp add: merged_entry_def add_languages_def)
    show ?thesis using pack sq 2 3 by (simp add: merge_release_def Let_def)
  next
    case series
    then obtain s e where se: "p_season parsed = Some s" "p_episode parsed = Some e"
      using k by (auto simp: keys_present_def)
    let ?u1 = "\<lambda>m. m\<lparr>episodes :=
                 pull (\<lambda>x. ep_season x = s \<and> ep_episode_number x = e) (episodes m)\<rparr>"
    let ?u2 = "\<lambda>m. (add_languages parsed m)\<lparr>episodes := episodes m @
                 [\<lparr>ep_season = s, ep_episode_number = e, ep_message_id = message_id\<rparr>]\<rparr>"
    have 1: "find_one (\<lambda>m. doc_id m = cid) (update_one cid ?u1 ms) = Some (?u1 m)"
      using find_one_update_one [where u = "?u1", OF f] i by simp
    have 2: "find_one (\<lambda>m. doc_id m = cid) (update_one cid ?u2 (update_one cid ?u1 ms))
             = Some (?u2 (?u1 m))"
      using find_one_update_one [where u = "?u2", OF 1] i by (simp add: doc_id_add_languages)
    have 3: "?u2 (?u1 m) = merged_entry parsed message_id m"
      using series se by (simp add: merged_entry_def add_languages_def)
    show ?thesis using series se 2 3 by (simp add: merge_release_def Let_def)
  next
    case other
    show ?thesis
    proof (cases "p_languages parsed = []")
      case True
      with other f show ?thesis
        by (simp add: merge_release_def merged_entry_def add_languages_def)
    next
      case False
      have "find_one (\<lambda>m. doc_id m = cid) (update_one cid (add_languages parsed) ms)
            = Some (add_languages parsed m)"
        using find_one_update_one [where u = "add_languages parsed", OF f] i
        by (simp add: doc_id_add_languages)
      with other False show ?thesis by (simp add: merge_release_def merged_entry_def)
    qed
  qed
qed

lemma languages_merged_entry:
  "keys_present parsed \<Longrightarrow>
   languages (merged_entry parsed message_id m) = addToSet (languages m) (p_languages parsed)"
  by (auto simp: merged_entry_def add_languages_def keys_present_def)



lemma merge_release_Inr_entry:
  assumes "find_one (\<lambda>m. doc_id m = cid) ms = Some m"
    and "merge_release parsed message_id cid ms = Inr ms'"
  shows "find_one (\<lambda>m. doc_id m = cid) ms' = Some (merged_entry parsed message_id m)"
proof (cases "keys_present parsed")
  case True
  from merge_release_entry [OF assms(1) True, of message_id] assms(2) show ?thesis by simp
next
  case False
  then have "\<exists>e. merge_release parsed message_id cid ms = Inl e"
    by (auto simp: keys_present_def merge_release_def split: option.splits)
  with assms(2) show ?thesis by auto
qed

lemma merged_entry_metadata:
  "tmdb_id (merged_entry parsed message_id m) = tmdb_id m \<and>
   title (merged_entry parsed message_id m) = title m \<and>
   overview (merged_entry parsed message_id m) = overview m \<and>
   poster (merged_entry parsed message_id m) = poster m \<and>
   release_date (merged_entry parsed message_id m) = release_date m \<and>
   vote_average (merged_entry parsed message_id m) = vote_average m \<and>
   genres (merged_entry parsed message_id m) = genres m \<and>
   ctype (merged_entry parsed message_id m) = ctype m \<and>
   categories (merged_entry parsed message_id m) = categories m"
  by (simp add: merged_entry_def add_languages_def split: option.splits)


section \<open>Notification and reconciliation\<close>

lemma send_notification_placeholder:
  "poster m = Some PLACEHOLDER_POSTER \<Longrightarrow> send_notification_to_channel env (Some m) w = w"
  by (simp add: send_notification_to_channel_def split: option.splits)

lemma movies_send_notification:
  "movies (send_notification_to_channel env d w) = movies w"
  by (simp add: send_notification_to_channel_def http_call_def Let_def
      split: option.splits sum.splits http_result.splits prod.splits)

lemma jobs_send_notification:
  "jobs (send_notification_to_channel env d w) = jobs w"
  by (simp add: send_notification_to_channel_def http_call_def Let_def
      split: option.splits sum.splits http_result.splits prod.splits)

lemma sent_send_notification_no_categories:
  assumes "categories m = []"
  shows "\<exists>extra. sent (send_notification_to_channel env (Some m) w) = sent w @ extra \<and>
           (\<forall>rq\<in>set extra. \<not> is_teaser rq \<and> \<not> is_pin rq)"
proof -
  have c: "notification_caption m = Inr (cap, kb) \<Longrightarrow> \<not> is_teaser (SendPhoto ch p cap kb)"
    for cap kb ch p
    using assms by (auto simp: notification_caption_def Let_def split: option.splits)
  show ?thesis
    using assms c
    by (auto simp: send_notification_to_channel_def http_call_def Let_def
        split: option.splits sum.splits http_result.splits prod.splits)
qed

lemma find_one_append_new:
  "find_one P ms = None \<Longrightarrow> P d \<Longrightarrow> find_one P (ms @ [d]) = Some d"
  by (induction ms) (simp_all add: find_one_def split: if_splits)

lemma find_one_fresh_id:
  "i \<notin> set (map doc_id ms) \<Longrightarrow> find_one (\<lambda>m. doc_id m = i) ms = None"
  by (induction ms) (auto simp: find_one_def)

lemma find_one_Some_mem: "find_one P ms = Some m \<Longrightarrow> m \<in> set ms \<and> P m"
  by (induction ms) (simp_all add: find_one_def split: if_splits)

lemma get_or_create_cases:
  assumes "get_or_create_content_entry env tmdb parsed w = (r, w')"
  shows "w' = w \<or>
         (\<exists>d. r = Inr (Some d) \<and> categories d = [] \<and> files d = [] \<and> episodes d = [] \<and>
              season_packs d = [] \<and> languages d = [] \<and> doc_id d = new_oid env \<and>
              new_oid env \<notin> set (map doc_id (movies w)) \<and>
              w' = send_notification_to_channel env (Some d) (w\<lparr>movies := movies w @ [d]\<rparr>))"
proof (cases "tmdb_found tmdb")
  case None
  let ?P = "\<lambda>m. title_matches env (p_title parsed) (title m) \<and> tmdb_id m = None"
  show ?thesis
  proof (cases "find_one ?P (movies w)")
    case (Some existing)
    with None assms show ?thesis by (simp add: get_or_create_content_entry_def)
  next
    case no: None
    let ?d = "\<lparr>doc_id = new_oid env, tmdb_id = None, title = p_title parsed,
                overview = Some ''Details will be updated soon.'',
                poster = Some PLACEHOLDER_POSTER,
                release_date = None, vote_average = Some 0,
                genres = [], trailer_key = None,
                ctype = (if p_type parsed = ''movie'' then Movie else Series),
                languages = [], episodes = [], season_packs = [], files = [],
                categories = []\<rparr>"
    show ?thesis
    proof (cases "new_oid env \<in> set (map doc_id (movies w))")
      case True
      then have "insert_one ?d (movies w) = Inl DuplicateKeyError" by (simp add: insert_one_def)
      with None no assms show ?thesis
        by (simp add: get_or_create_content_entry_def Let_def)
    next
      case False
      then have i: "insert_one ?d (movies w) = Inr (movies w @ [?d])" by (simp add: insert_one_def)
      have "find_one (\<lambda>m. doc_id m = new_oid env) (movies w) = None"
        using False by (rule find_one_fresh_id)
      then have f: "find_one (\<lambda>m. doc_id m = new_oid env) (movies w @ [?d]) = Some ?d"
        by (rule find_one_append_new) simp
      from None no i f assms have "r = Inr (Some ?d)"
        and "w' = send_notification_to_channel env (Some ?d) (w\<lparr>movies := movies w @ [?d]\<rparr>)"
        by (simp_all add: get_or_create_content_entry_def Let_def)
      with False show ?thesis by simp
    qed
  qed
next
  case (Some ti)
  obtain t i where ti: "ti = (t, i)" by (cases ti)
  let ?P = "\<lambda>m. tmdb_id m = Some i"
  have tid: "t_tmdb_id t = Some i"
    using Some ti by (auto simp: tmdb_found_def split: option.splits if_splits)
  show ?thesis
  proof (cases "find_one ?P (movies w)")
    case (Some existing)
    with \<open>tmdb_found tmdb = Some ti\<close> ti assms show ?thesis
      by (simp add: get_or_create_content_entry_def)
  next
    case no: None
    let ?d = "\<lparr>doc_id = new_oid env, tmdb_id = t_tmdb_id t, title = t_title t,
                overview = t_overview t, poster = t_poster t,
                release_date = t_release_date t, vote_average = t_vote_average t,
                genres = t_genres t, trailer_key = t_trailer_key t,
                ctype = (if p_type parsed = ''movie'' then Movie else Series),
                languages = [], episodes = [], season_packs = [], files = [],
                categories = []\<rparr>"
    show ?thesis
    proof (cases "new_oid env \<in> set (map doc_id (movies w))")
      case True
      then have "insert_one ?d (movies w) = Inl DuplicateKeyError" by (simp add: insert_one_def)
      with \<open>tmdb_found tmdb = Some ti\<close> ti no assms show ?thesis
        by (simp add: get_or_create_content_entry_def Let_def)
    next
      case False
      then have i: "insert_one ?d (movies w) = Inr (movies w @ [?d])" by (simp add: insert_one_def)
      have f: "find_one ?P (movies w @ [?d]) = Some ?d"
        using no by (rule find_one_append_new) (simp add: tid)
      from \<open>tmdb_found tmdb = Some ti\<close> ti no i f assms have "r = Inr (Some ?d)"
        and "w' = send_notification_to_channel env (Some ?d) (w\<lparr>movies := movies w @ [?d]\<rparr>)"
        by (simp_all add: get_or_create_content_entry_def Let_def)
      with False show ?thesis by simp
    qed
  qed
qed

text \<open>
  Claim C3. When the resolved metadata carries a \<open>tmdb_id\<close> and the collection holds an
  entry with that id, the reconciler returns the stored entry itself, every field as it is
  stored, and leaves the world as it was: nothing is written to the collection and no call
  is made to Telegram, so no creation notification is sent. The merge that follows, on the
  document of that id, changes none of its metadata fields.
\<close>

theorem existing_catalogue_entry_returned:
  assumes "t_tmdb_id t = Some i" and "i \<noteq> 0"
    and "find_one (\<lambda>m. tmdb_id m = Some i) (movies w) = Some existing"
  shows "get_or_create_content_entry env (Some t) parsed w = (Inr (Some existing), w) \<and>
         existing \<in> set (movies w) \<and> tmdb_id existing = t_tmdb_id t \<and>
         (\<forall>message_id ms'.
            find_one (\<lambda>m. doc_id m = doc_id existing) (movies w) = Some existing \<and>
            merge_release parsed message_id (doc_id existing) (movies w) = Inr ms' \<longrightarrow>
            (\<exists>m'. find_one (\<lambda>m. doc_id m = doc_id existing) ms' = Some m' \<and>
                  tmdb_id m' = tmdb_id existing \<and> title m' = title existing \<and>
                  overview m' = overview existing \<and> poster m' = poster existing \<and>
                  release_date m' = release_date existing \<and>
                  vote_average m' = vote_average existing \<and> genres m' = genres existing \<and>
                  ctype m' = ctype existing \<and> categories m' = categories existing))"
proof -
  have "tmdb_found (Some t) = Some (t, i)"
    using assms(1,2) by (simp add: tmdb_found_def)
  with assms(3) have 1: "get_or_create_content_entry env (Some t) parsed w = (Inr (Some existing), w)"
    by (simp add: get_or_create_content_entry_def)
  from find_one_Some_mem [OF assms(3)] assms(1)
  have 2: "existing \<in> set (movies w)" and 3: "tmdb_id existing = t_tmdb_id t" by simp_all
  have 4: "\<exists>m'. find_one (\<lambda>m. doc_id m = doc_id existing) ms' = Some m' \<and>
                  tmdb_id m' = tmdb_id existing \<and> title m' = title existing \<and>
                  overview m' = overview existing \<and> poster m' = poster existing \<and>
                  release_date m' = release_date existing \<and>
                  vote_average m' = vote_average existing \<and> genres m' = genres existing \<and>
                  ctype m' = ctype existing \<and> categories m' = categories existing"
    if f: "find_one (\<lambda>m. doc_id m = doc_id existing) (movies w) = Some existing"
      and m: "merge_release parsed message_id (doc_id existing) (movies w) = Inr ms'"
    for message_id ms'
    using merge_release_Inr_entry [OF f m] merged_entry_metadata [of parsed message_id existing]
    by simp
  from 1 2 3 4 show ?thesis by blast
qed

theorem existing_catalogue_entry_returned_witness:
  "t_tmdb_id example_tmdb = Some 603 \<and>
   find_one (\<lambda>m. tmdb_id m = Some 603) (movies example_world) = Some example_movie \<and>
   find_one (\<lambda>m. doc_id m = doc_id example_movie) (movies example_world) = Some example_movie \<and>
   get_or_create_content_entry example_env (Some example_tmdb) parsed_movie_1080p example_world
     = (Inr (Some example_movie), example_world) \<and>
   t_overview example_tmdb = Some ''Fresh text.'' \<and>
   (\<exists>ms' m'. merge_release parsed_movie_1080p 41 (doc_id example_movie) (movies example_world)
        = Inr ms' \<and>
      find_one (\<lambda>m. doc_id m = doc_id example_movie) ms' = Some m' \<and>
      overview m' = Some ''An example.'' \<and> title m' = ''Example Movie'')"
proof -
  have h1: "t_tmdb_id example_tmdb = Some 603" by (simp add: example_tmdb_def)
  have h2: "(603::int) \<noteq> 0" by simp
  have h3: "find_one (\<lambda>m. tmdb_id m = Some 603) (movies example_world) = Some example_movie"
    by (simp add: find_one_def example_world_def example_movie_def)
  have h4: "find_one (\<lambda>m. doc_id m = doc_id example_movie) (movies example_world)
            = Some example_movie"
    by (simp add: find_one_def example_world_def)
  have k: "keys_present parsed_movie_1080p"
    by (simp add: keys_present_def parsed_movie_1080p_def)
  have o: "overview example_movie = Some ''An example.''" "title example_movie = ''Example Movie''"
    by (simp_all add: example_movie_def)
  have f: "t_overview example_tmdb = Some ''Fresh text.''" by (simp add: example_tmdb_def)
  from merge_release_entry [OF h4 k, of 41] obtain ms' where
    ms': "merge_release parsed_movie_1080p 41 (doc_id example_movie) (movies example_world)
          = Inr ms'"
    by blast
  note T = existing_catalogue_entry_returned [OF h1 h2 h3, of example_env parsed_movie_1080p]
  from T have 1: "get_or_create_content_entry example_env (Some example_tmdb) parsed_movie_1080p
      example_world = (Inr (Some example_movie), example_world)"
    by (elim conjE)
  from T h4 ms' obtain m' where
    m': "find_one (\<lambda>m. doc_id m = doc_id example_movie) ms' = Some m'"
      "overview m' = overview example_movie" "title m' = title example_movie"
    by blast
  from m' o have 2: "overview m' = Some ''An example.''" "title m' = ''Example Movie''"
    by simp_all
  from ms' m'(1) 2 have 3: "\<exists>ms' m'.
      merge_release parsed_movie_1080p 41 (doc_id example_movie) (movies example_world) = Inr ms' \<and>
      find_one (\<lambda>m. doc_id m = doc_id example_movie) ms' = Some m' \<and>
      overview m' = Some ''An example.'' \<and> title m' = ''Example Movie''"
    by blast
  from h1 h3 h4 1 f 3 show ?thesis by (intro conjI)
qed

text \<open>
  Claim C4 as stated fails: a stored shell entry whose title is the parsed title followed
  by a line feed does not have the parsed title up to case, yet the query's pattern
  matches it, so the reconciler returns that entry and creates nothing.
\<close>

theorem shell_entry_created_counterexample:
  "tmdb_found None = None \<and> movies newline_world = [newline_shell] \<and>
   tmdb_id newline_shell = None \<and>
   \<not> caseless example_env (p_title parsed_unknown) (title newline_shell) \<and>
   new_oid example_env \<noteq> doc_id newline_shell \<and>
   get_or_create_content_entry example_env None parsed_unknown newline_world =
     (Inr (Some newline_shell), newline_world)"
proof -
  have t: "tmdb_found None = None" by (simp add: tmdb_found_def)
  have c: "\<not> caseless example_env (p_title parsed_unknown) (title newline_shell)"
    by (simp add: example_env_def ascii_caseless_def parsed_unknown_def newline_shell_def)
  have m: "title_matches example_env (p_title parsed_unknown) (title newline_shell)"
    by (simp add: title_matches_def example_env_def ascii_caseless_def parsed_unknown_def
        newline_shell_def)
  have n: "tmdb_id newline_shell = None"
    by (simp add: newline_shell_def other_shell_def)
  have i: "new_oid example_env \<noteq> doc_id newline_shell"
    by (simp add: example_env_def newline_shell_def other_shell_def)
  have f: "find_one (\<lambda>m. title_matches example_env (p_title parsed_unknown) (title m) \<and>
                         tmdb_id m = None) (movies newline_world) = Some newline_shell"
    using m n by (simp add: find_one_def newline_world_def)
  have g: "get_or_create_content_entry example_env None parsed_unknown newline_world =
     (Inr (Some newline_shell), newline_world)"
    unfolding get_or_create_content_entry_def t using f by simp
  have w: "movies newline_world = [newline_shell]" by (simp add: newline_world_def)
  from t w n c i g show ?thesis by (intro conjI)
qed

text \<open>
  Claim C4, amended. When the resolution found nothing and the query's pattern matches the
  title of no stored entry without \<open>tmdb_id\<close> (the parsed title up to case, with or without
  one final line feed), the reconciler appends a shell entry whose \<open>tmdb_id\<close> is null and
  whose poster is the placeholder. The notification of such an entry makes no call at all,
  in any environment, and the reconciler leaves the log of calls unchanged.
\<close>

theorem shell_entry_created:
  assumes "tmdb_found tmdb = None"
    and "find_one (\<lambda>m. title_matches env (p_title parsed) (title m) \<and> tmdb_id m = None)
           (movies w) = None"
    and "new_oid env \<notin> set (map doc_id (movies w))"
  shows "\<exists>shell. get_or_create_content_entry env tmdb parsed w =
                   (Inr (Some shell), w\<lparr>movies := movies w @ [shell]\<rparr>) \<and>
           tmdb_id shell = None \<and> poster shell = Some PLACEHOLDER_POSTER \<and>
           title shell = p_title parsed \<and> doc_id shell = new_oid env \<and>
           (\<forall>env' w''. send_notification_to_channel env' (Some shell) w'' = w'') \<and>
           sent (snd (get_or_create_content_entry env tmdb parsed w)) = sent w"
proof -
  let ?d = "\<lparr>doc_id = new_oid env, tmdb_id = None, title = p_title parsed,
              overview = Some ''Details will be updated soon.'',
              poster = Some PLACEHOLDER_POSTER,
              release_date = None, vote_average = Some 0,
              genres = [], trailer_key = None,
              ctype = (if p_type parsed = ''movie'' then Movie else Series),
              languages = [], episodes = [], season_packs = [], files = [],
              categories = []\<rparr>"
  let ?w1 = "w\<lparr>movies := movies w @ [?d]\<rparr>"
  have i: "insert_one ?d (movies w) = Inr (movies w @ [?d])"
    using assms(3) by (simp add: insert_one_def)
  have "find_one (\<lambda>m. doc_id m = new_oid env) (movies w) = None"
    using assms(3) by (rule find_one_fresh_id)
  then have f: "find_one (\<lambda>m. doc_id m = new_oid env) (movies w @ [?d]) = Some ?d"
    by (rule find_one_append_new) simp
  have n: "send_notification_to_channel env (Some ?d) ?w1 = ?w1"
    by (rule send_notification_placeholder) simp
  have g: "get_or_create_content_entry env tmdb parsed w = (Inr (Some ?d), ?w1)"
    using assms(1,2) i f n by (simp add: get_or_create_content_entry_def Let_def)
  have s: "sent (snd (get_or_create_content_entry env tmdb parsed w)) = sent w"
    by (simp add: g)
  show ?thesis
    by (rule exI [of _ ?d]) (simp add: g send_notification_placeholder)
qed

theorem shell_entry_created_witness:
  "tmdb_found None = None \<and>
   find_one (\<lambda>m. title_matches example_env (p_title parsed_unknown) (title m) \<and>
                  tmdb_id m = None) (movies shell_world) = None \<and>
   tmdb_id other_shell = None \<and> movies shell_world = [example_movie, other_shell] \<and>
   new_oid example_env \<notin> set (map doc_id (movies shell_world)) \<and>
   (\<exists>shell. get_or_create_content_entry example_env None parsed_unknown shell_world =
              (Inr (Some shell), shell_world\<lparr>movies := movies shell_world @ [shell]\<rparr>) \<and>
      tmdb_id shell = None \<and> poster shell = Some PLACEHOLDER_POSTER \<and>
      title shell = ''Unknown Film'')"
proof -
  have h1: "tmdb_found None = None" by (simp add: tmdb_found_def)
  have m: "\<not> title_matches example_env (p_title parsed_unknown) (title other_shell)"
    by (simp add: title_matches_def example_env_def ascii_caseless_def parsed_unknown_def
        other_shell_def lower_char_def)
  have o: "tmdb_id other_shell = None" by (simp add: other_shell_def)
  have w: "movies shell_world = [example_movie, other_shell]" by (simp add: shell_world_def)
  have e: "tmdb_id example_movie \<noteq> None" by (simp add: example_movie_def)
  have h2: "find_one (\<lambda>m. title_matches example_env (p_title parsed_unknown) (title m) \<and>
                  tmdb_id m = None) (movies shell_world) = None"
    unfolding w using m e by (simp add: find_one_def)
  have h3: "new_oid example_env \<notin> set (map doc_id (movies shell_world))"
    by (simp add: w example_env_def example_movie_def other_shell_def movie_oid_def)
  have t: "p_title parsed_unknown = ''Unknown Film''" by (simp add: parsed_unknown_def)
  from shell_entry_created [OF h1 h2 h3] obtain shell where
    "get_or_create_content_entry example_env None parsed_unknown shell_world =
       (Inr (Some shell), shell_world\<lparr>movies := movies shell_world @ [shell]\<rparr>)"
    "tmdb_id shell = None" "poster shell = Some PLACEHOLDER_POSTER"
    "title shell = p_title parsed_unknown"
    by blast
  with h1 h2 o w h3 t show ?thesis by auto
qed

text \<open>
  Claim C10. Whenever the reconciler changes the collection it has appended one entry,
  which it returns; its \<open>categories\<close> are empty, and the calls made for its creation
  contain neither a coming-soon teaser nor a pin.
\<close>

theorem created_entry_never_teaser_never_pinned:
  assumes "get_or_create_content_entry env tmdb parsed w = (r, w')"
    and "movies w' \<noteq> movies w"
  shows "\<exists>d extra. r = Inr (Some d) \<and> movies w' = movies w @ [d] \<and> categories d = [] \<and>
           sent w' = sent w @ extra \<and> (\<forall>rq\<in>set extra. \<not> is_teaser rq \<and> \<not> is_pin rq)"
proof -
  from get_or_create_cases [OF assms(1)] assms(2) obtain d where
    d: "r = Inr (Some d)" "categories d = []"
      "w' = send_notification_to_channel env (Some d) (w\<lparr>movies := movies w @ [d]\<rparr>)"
    by blast
  from d(3) have m: "movies w' = movies w @ [d]"
    by (simp add: movies_send_notification)
  from sent_send_notification_no_categories [OF d(2), of env "w\<lparr>movies := movies w @ [d]\<rparr>"]
  obtain extra where
    e: "sent w' = sent w @ extra" "\<forall>rq\<in>set extra. \<not> is_teaser rq \<and> \<not> is_pin rq"
    unfolding d(3) by auto
  from d(1,2) m e show ?thesis by blast
qed

theorem created_entry_never_teaser_never_pinned_witness:
  "movies (snd (get_or_create_content_entry example_env (Some other_tmdb) parsed_movie_1080p
      example_world)) \<noteq> movies example_world \<and>
   (\<exists>d extra. fst (get_or_create_content_entry example_env (Some other_tmdb) parsed_movie_1080p
        example_world) = Inr (Some d) \<and> categories d = [] \<and> title d = ''Other Movie'' \<and>
      sent (snd (get_or_create_content_entry example_env (Some other_tmdb) parsed_movie_1080p
        example_world)) = sent example_world @ extra \<and>
      list_all (\<lambda>rq. \<not> is_teaser rq \<and> \<not> is_pin rq) extra \<and> length extra = 1)"
proof -
  let ?X = "get_or_create_content_entry example_env (Some other_tmdb) parsed_movie_1080p
      example_world"
  let ?d = "\<lparr>doc_id = ''64b7f3a2c1d4e5f6a7b8c9d2'', tmdb_id = Some 27205, title = ''Other Movie'',
      overview = Some ''Another.'', poster = Some ''https://image.tmdb.org/t/p/w500/o.jpg'',
      release_date = Some ''2010-07-16'', vote_average = Some (42 / 5),
      genres = [''Action'', ''Adventure''], trailer_key = None, ctype = Movie,
      languages = [], episodes = [], season_packs = [], files = [], categories = []\<rparr>"
  have f: "tmdb_found (Some other_tmdb) = Some (other_tmdb, 27205)"
    by (simp add: tmdb_found_def other_tmdb_def)
  have n: "find_one (\<lambda>m. tmdb_id m = Some 27205) (movies example_world) = None"
    by (simp add: find_one_def example_world_def example_movie_def example_series_def)
  have i: "insert_one ?d (movies example_world) = Inr (movies example_world @ [?d])"
    by (simp add: insert_one_def example_world_def example_movie_def example_series_def
        movie_oid_def series_oid_def)
  have g: "find_one (\<lambda>m. tmdb_id m = Some 27205) (movies example_world @ [?d]) = Some ?d"
    using n by (rule find_one_append_new) simp
  have x: "?X = (Inr (Some ?d), send_notification_to_channel example_env (Some ?d)
       (example_world\<lparr>movies := movies example_world @ [?d]\<rparr>))"
    unfolding get_or_create_content_entry_def f using n i g
    by (simp add: Let_def other_tmdb_def example_env_def parsed_movie_1080p_def)
  have s: "sent (snd ?X) = sent example_world @
      [SendPhoto ''-1002'' ''https://image.tmdb.org/t/p/w500/o.jpg''
         (NewContentCaption ''Other Movie'' (Some ''2010'') (Some ''Action, Adventure'')
            (Some (42 / 5)))
         (Some ''/movie/64b7f3a2c1d4e5f6a7b8c9d2'')]"
    unfolding x
    by (simp add: send_notification_to_channel_def notification_caption_def example_env_def
        example_http_def http_call_def PLACEHOLDER_POSTER_def movie_url_def Let_def
        example_world_def)
  have h: "movies (snd ?X) \<noteq> movies example_world"
    by (simp add: x movies_send_notification)
  from created_entry_never_teaser_never_pinned [OF prod.collapse [symmetric] h] obtain d extra
    where 1: "fst ?X = Inr (Some d)" "categories d = []" "sent (snd ?X) = sent example_world @ extra"
      "\<forall>rq\<in>set extra. \<not> is_teaser rq \<and> \<not> is_pin rq"
    by blast
  from 1(1) have t: "title d = ''Other Movie''" unfolding x by auto
  from 1(3) s have l: "length extra = 1" by auto
  from 1(4) have a: "list_all (\<lambda>rq. \<not> is_teaser rq \<and> \<not> is_pin rq) extra"
    by (simp add: list_all_iff)
  from h 1(1,2,3) t a l show ?thesis by blast
qed

section \<open>Replace-by-key and the language union\<close>




text \<open>
  Claim C9. A merge that addresses a stored entry leaves its \<open>languages\<close> equal, as a set,
  to the union of the stored languages and the parsed ones. The stored list is kept as a
  prefix (nothing is removed), what is appended has no duplicate and repeats no stored
  language, so a list without duplicates stays without duplicates; with no parsed language
  the list is unchanged.
\<close>

theorem languages_union_on_merge:
  assumes "find_one (\<lambda>m. doc_id m = cid) ms = Some m" and "keys_present parsed"
  shows "\<exists>ms' m'. merge_release parsed message_id cid ms = Inr ms' \<and>
           find_one (\<lambda>m. doc_id m = cid) ms' = Some m' \<and>
           set (languages m') = set (languages m) \<union> set (p_languages parsed) \<and>
           (\<exists>ys. languages m' = languages m @ ys \<and> distinct ys \<and>
                 set ys \<inter> set (languages m) = {}) \<and>
           (distinct (languages m) \<longrightarrow> distinct (languages m')) \<and>
           (p_languages parsed = [] \<longrightarrow> languages m' = languages m)"
proof -
  let ?m' = "merged_entry parsed message_id m"
  from merge_release_entry [OF assms] obtain ms' where
    ms': "merge_release parsed message_id cid ms = Inr ms'"
      "find_one (\<lambda>m. doc_id m = cid) ms' = Some ?m'"
    by blast
  have l: "languages ?m' = addToSet (languages m) (p_languages parsed)"
    using assms(2) by (rule languages_merged_entry)
  have 1: "set (languages ?m') = set (languages m) \<union> set (p_languages parsed)"
    by (simp only: l set_addToSet)
  obtain ys where ys: "addToSet (languages m) (p_languages parsed) = languages m @ ys"
      "distinct ys" "set ys = set (p_languages parsed) - set (languages m)"
    using addToSet_append [of "languages m" "p_languages parsed"] by blast
  from ys(3) have "set ys \<inter> set (languages m) = {}" by blast
  with ys(1,2) have 2: "\<exists>ys. languages ?m' = languages m @ ys \<and> distinct ys \<and>
      set ys \<inter> set (languages m) = {}"
    unfolding l by blast
  have 3: "distinct (languages m) \<longrightarrow> distinct (languages ?m')"
    by (simp add: l distinct_addToSet)
  have 4: "p_languages parsed = [] \<longrightarrow> languages ?m' = languages m"
    by (simp add: l)
  from ms' 1 2 3 4 show ?thesis by blast
qed

theorem languages_union_on_merge_witness:
  "find_one (\<lambda>m. doc_id m = movie_oid) [example_series, example_movie] = Some example_movie \<and>
   keys_present parsed_movie_1080p \<and> distinct (languages example_movie) \<and>
   (\<exists>ms' m'. merge_release parsed_movie_1080p 41 movie_oid [example_series, example_movie] = Inr ms' \<and>
      find_one (\<lambda>m. doc_id m = movie_oid) ms' = Some m' \<and>
      set (languages m') = {''Hindi'', ''English''} \<and> distinct (languages m'))"
proof -
  have h1: "find_one (\<lambda>m. doc_id m = movie_oid) [example_series, example_movie] = Some example_movie"
    by (simp add: find_one_def example_series_def example_movie_def movie_oid_def series_oid_def)
  have h2: "keys_present parsed_movie_1080p"
    by (simp add: keys_present_def parsed_movie_1080p_def)
  have d: "distinct (languages example_movie)"
    by (simp add: example_movie_def)
  have l: "set (languages example_movie) \<union> set (p_languages parsed_movie_1080p) = {''Hindi'', ''English''}"
    by (auto simp: example_movie_def parsed_movie_1080p_def)
  from languages_union_on_merge [OF h1 h2, of 41] obtain ms' m' where
    1: "merge_release parsed_movie_1080p 41 movie_oid [example_series, example_movie] = Inr ms'"
      "find_one (\<lambda>m. doc_id m = movie_oid) ms' = Some m'"
      "set (languages m') = set (languages example_movie) \<union> set (p_languages parsed_movie_1080p)"
      "distinct (languages example_movie) \<longrightarrow> distinct (languages m')"
    by blast
  from 1(3) l have 2: "set (languages m') = {''Hindi'', ''English''}" by simp
  from 1(4) d have 3: "distinct (languages m')" by simp
  from h1 h2 d 1(1,2) 2 3 show ?thesis by blast
qed






section \<open>The /start command: resolution, delivery and clean-up\<close>

lemma split_words_no_space:
  "\<forall>c\<in>set s. \<not> is_space c \<Longrightarrow> split_words cur s = (if cur @ s = [] then [] else [cur @ s])"
  by (induction s arbitrary: cur) simp_all

lemma py_split_start:
  assumes "payload \<noteq> []" and "\<forall>c\<in>set payload. \<not> is_space c"
  shows "py_split (''/start '' @ payload) = [''/start'', payload]"
proof -
  have 1: "split_words [] payload = [payload]"
    using assms by (simp add: split_words_no_space)
  have 2: "\<not> is_space CHR ''/''" "\<not> is_space CHR ''s''" "\<not> is_space CHR ''t''"
    "\<not> is_space CHR ''a''" "\<not> is_space CHR ''r''" "is_space CHR '' ''"
    by (simp_all add: is_space_def)
  show ?thesis
    by (simp add: py_split_def 1 2)
qed

lemma startswith_start: "startswith (''/start '' @ payload) ''/start''"
  by (simp add: startswith_def)








lemma handle_start:
  assumes t: "txt = ''/start '' @ payload" and ne: "payload \<noteq> []"
    and ws: "\<forall>c\<in>set payload. \<not> is_space c"
  shows "telegram_webhook env (Message \<lparr>msg_chat_id = chat, msg_text = Some txt\<rparr>) w =
     (case start_payload env chat payload w of
        (Inr u, w1) \<Rightarrow> (Inr (Response ''ok'' None), w1)
      | (Inl e, w1) \<Rightarrow>
          (case http_call env (unexpected_error_notice chat) w1 of
             (Raises, w2) \<Rightarrow> (Inl RequestException, w2)
           | (Json a b, w2) \<Rightarrow> (Inr (Response ''ok'' None), w2)))"
proof -
  have 1: "startswith txt ''/start''" unfolding t by (rule startswith_start)
  have 2: "py_split txt = [''/start'', payload]" unfolding t using ne ws by (rule py_split_start)
  show ?thesis
    by (simp add: telegram_webhook_def handle_message_def Let_def 1 2)
qed

lemma payload_of_ObjectId:
  assumes "ObjectId (split_on CHR ''_'' payload ! 0) = Inr oid"
  shows "payload \<noteq> []"
proof
  assume "payload = []"
  with assms show False by (simp add: ObjectId_def)
qed

lemma start_payload_copied:
  assumes "ObjectId (split_on CHR ''_'' payload ! 0) = Inr oid"
    and "find_one (\<lambda>m. doc_id m = oid) (movies w) = Some content"
    and "resolve_target content (split_on CHR ''_'' payload) = Inr (Some mid, info)"
    and "mid \<noteq> 0"
    and "http env (copy_request env chat content mid info) = Json True (Some n)"
  shows "start_payload env chat payload w =
     (Inr (), w\<lparr>sent := sent w @ [copy_request env chat content mid info],
                 jobs := add_job (deletion_job env chat n) (jobs w)\<rparr>)"
  using assms by (simp add: start_payload_def Let_def truthy_id_def http_call_def)

lemma start_payload_copy_refused:
  assumes "ObjectId (split_on CHR ''_'' payload ! 0) = Inr oid"
    and "find_one (\<lambda>m. doc_id m = oid) (movies w) = Some content"
    and "resolve_target content (split_on CHR ''_'' payload) = Inr (Some mid, info)"
    and "mid \<noteq> 0"
    and "http env (copy_request env chat content mid info) = Json False r"
  shows "start_payload env chat payload w =
     (if http env (copy_failed_notice chat) = Raises then Inl RequestException else Inr (),
      w\<lparr>sent := sent w @ [copy_request env chat content mid info, copy_failed_notice chat]\<rparr>)"
  using assms
  by (simp add: start_payload_def Let_def truthy_id_def http_call_def split: http_result.splits)


lemma ObjectId_series_oid: "ObjectId series_oid = Inr series_oid"
  by (simp add: ObjectId_def series_oid_def is_hex_def lower_char_def)

lemma find_example_series:
  "find_one (\<lambda>m. doc_id m = series_oid) (movies example_world) = Some example_series"
  by (simp add: find_one_def example_world_def example_movie_def example_series_def
      movie_oid_def series_oid_def)

lemma show_int_2: "show_int 2 = ''2''"
  by (simp add: show_int_def show_nat.simps digits_def)

lemma no_space_pack_token: "\<forall>c\<in>set (series_oid @ ''_S2_1080p''). \<not> is_space c"
  by (simp add: series_oid_def is_space_def)

lemma no_space_episode_token: "\<forall>c\<in>set (series_oid @ ''_1_3''). \<not> is_space c"
  by (simp add: series_oid_def is_space_def)

lemma parts_pack_token:
  "split_on CHR ''_'' (series_oid @ ''_S2_1080p'') = [series_oid, ''S2'', ''1080p'']"
  by (simp add: series_oid_def)

lemma parts_episode_token:
  "split_on CHR ''_'' (series_oid @ ''_1_3'') = [series_oid, ''1'', ''3'']"
  by (simp add: series_oid_def)

lemma py_int_small: "py_int ''1'' = Some 1" "py_int ''2'' = Some 2" "py_int ''3'' = Some 3"
  by (simp_all add: py_int_def digit_of_def digits_def)

lemma resolve_pack_token:
  "resolve_target example_series (split_on CHR ''_'' (series_oid @ ''_S2_1080p''))
   = Inr (Some 200, ''Complete Season 2 (1080p)'')"
  unfolding parts_pack_token
  by (simp add: resolve_target_def startswith_def py_int_small example_series_def show_int_2)

lemma resolve_episode_token:
  "resolve_target example_series (split_on CHR ''_'' (series_oid @ ''_1_3''))
   = Inr (Some 100, ''S01E03'')"
  unfolding parts_episode_token
  by (simp add: resolve_target_def startswith_def py_int_small example_series_def
      show_int_02d_def show_int_def show_nat.simps digits_def)

lemma not_copy_notices:
  "\<not> is_copy (copy_failed_notice chat)" "\<not> is_copy (not_found_notice chat)"
  "\<not> is_copy (unexpected_error_notice chat)" "is_copy (copy_request env chat content mid info)"
  by (simp_all add: copy_failed_notice_def not_found_notice_def unexpected_error_notice_def
      copy_request_def)

text \<open>
  Claim C7. When Telegram answers the copy with a response that is not ok, the next call
  is the plain-text failure notice to the requester; the copy is the only \<open>copyMessage\<close>
  of the run, and the pending jobs and the collection are unchanged.
\<close>

theorem copy_failure_notice_no_job:
  assumes "\<forall>c\<in>set payload. \<not> is_space c"
    and "ObjectId (split_on CHR ''_'' payload ! 0) = Inr oid"
    and "find_one (\<lambda>m. doc_id m = oid) (movies w) = Some content"
    and "resolve_target content (split_on CHR ''_'' payload) = Inr (Some mid, info)"
    and "mid \<noteq> 0"
    and "http env (copy_request env chat content mid info) = Json False r"
  shows "case telegram_webhook env
                (Message \<lparr>msg_chat_id = chat, msg_text = Some (''/start '' @ payload)\<rparr>) w of
           (res, w') \<Rightarrow>
             sent w' = sent w @ [copy_request env chat content mid info, copy_failed_notice chat] @
               (if http env (copy_failed_notice chat) = Raises
                then [unexpected_error_notice chat] else []) \<and>
             filter is_copy (sent w') =
               filter is_copy (sent w) @ [copy_request env chat content mid info] \<and>
             jobs w' = jobs w \<and> movies w' = movies w \<and>
             res = (if http env (copy_failed_notice chat) = Raises \<and>
                       http env (unexpected_error_notice chat) = Raises
                    then Inl RequestException else Inr (Response ''ok'' None))"
proof -
  have ne: "payload \<noteq> []" using assms(2) by (rule payload_of_ObjectId)
  note sp = start_payload_copy_refused [OF assms(2-6)]
  show ?thesis
    unfolding handle_start [OF refl ne assms(1)] sp
    by (simp add: http_call_def not_copy_notices split: http_result.splits)
qed

theorem copy_failure_notice_no_job_witness:
  "ObjectId (split_on CHR ''_'' (series_oid @ ''_1_3'') ! 0) = Inr series_oid \<and>
   resolve_target example_series (split_on CHR ''_'' (series_oid @ ''_1_3''))
     = Inr (Some 100, ''S01E03'') \<and>
   http example_env (copy_request example_env 77 example_series 100 ''S01E03'') = Json False None \<and>
   fst (telegram_webhook example_env
     (Message \<lparr>msg_chat_id = 77, msg_text = Some (''/start '' @ series_oid @ ''_1_3'')\<rparr>)
     example_world) = Inr (Response ''ok'' None) \<and>
   sent (snd (telegram_webhook example_env
     (Message \<lparr>msg_chat_id = 77, msg_text = Some (''/start '' @ series_oid @ ''_1_3'')\<rparr>)
     example_world)) =
     [copy_request example_env 77 example_series 100 ''S01E03'', copy_failed_notice 77] \<and>
   jobs (snd (telegram_webhook example_env
     (Message \<lparr>msg_chat_id = 77, msg_text = Some (''/start '' @ series_oid @ ''_1_3'')\<rparr>)
     example_world)) = []"
proof -
  have o: "ObjectId (split_on CHR ''_'' (series_oid @ ''_1_3'') ! 0) = Inr series_oid"
    by (simp add: parts_episode_token ObjectId_series_oid)
  have z: "(100::int) \<noteq> 0" by simp
  have h: "http example_env (copy_request example_env 77 example_series 100 ''S01E03'')
           = Json False None"
    by (simp add: copy_request_def example_env_def example_http_def)
  have n: "http example_env (copy_failed_notice 77) \<noteq> Raises"
    by (simp add: copy_failed_notice_def example_env_def example_http_def)
  have e: "sent example_world = []" "jobs example_world = []"
    by (simp_all add: example_world_def)
  from copy_failure_notice_no_job [OF no_space_episode_token o find_example_series
      resolve_episode_token z h] n e
  have "fst (telegram_webhook example_env
     (Message \<lparr>msg_chat_id = 77, msg_text = Some (''/start '' @ series_oid @ ''_1_3'')\<rparr>)
     example_world) = Inr (Response ''ok'' None) \<and>
   sent (snd (telegram_webhook example_env
     (Message \<lparr>msg_chat_id = 77, msg_text = Some (''/start '' @ series_oid @ ''_1_3'')\<rparr>)
     example_world)) =
     [copy_request example_env 77 example_series 100 ''S01E03'', copy_failed_notice 77] \<and>
   jobs (snd (telegram_webhook example_env
     (Message \<lparr>msg_chat_id = 77, msg_text = Some (''/start '' @ series_oid @ ''_1_3'')\<rparr>)
     example_world)) = []"
    by (simp add: split_beta)
  with o resolve_episode_token h show ?thesis by (intro conjI) simp_all
qed

lemma run_jobs_effect:
  "sent (run_jobs env js w) =
     sent w @ map (\<lambda>j. DeleteMessage (fst (job_args j)) (snd (job_args j))) js \<and>
   jobs (run_jobs env js w) = jobs w \<and> movies (run_jobs env js w) = movies w"
  by (induction js arbitrary: w) (simp_all add: delete_message_after_delay_def http_call_def)

lemma scheduler_wakeup_effect:
  "sent (scheduler_wakeup env w) =
     sent w @ map (\<lambda>j. DeleteMessage (fst (job_args j)) (snd (job_args j)))
                (filter (\<lambda>j. run_date j \<le> now env) (jobs w)) \<and>
   jobs (scheduler_wakeup env w) = filter (\<lambda>j. \<not> run_date j \<le> now env) (jobs w)"
  by (simp add: scheduler_wakeup_def run_jobs_effect)

lemma add_job_twice:
  assumes "job_id j1 = job_id j"
  shows "filter (\<lambda>x. job_id x = job_id j) (add_job j (add_job j1 js)) = [j]"
proof -
  have "filter (\<lambda>x. job_id x = job_id j) (filter (\<lambda>x. job_id x \<noteq> job_id j) ys) = []" for ys
    by (induction ys) simp_all
  then show ?thesis by (simp add: add_job_def assms)
qed

lemma job_id_deletion_job: "job_id (deletion_job env chat n) = deletion_job_id chat n"
  by (simp add: deletion_job_def)

text \<open>
  Claim C6. A delivery whose copy succeeds returns ok and submits one job: its id is built
  from the requester's chat and the id of the copied message, its run date is 30 minutes
  from now. Submitting a second job for the same chat and message leaves exactly one
  pending job of that id, the second; when the scheduler wakes up after its run date, that
  one job is among the jobs run, and no job of that id is pending afterwards.
\<close>

theorem deletion_job_scheduled_once:
  assumes "\<forall>c\<in>set payload. \<not> is_space c"
    and "ObjectId (split_on CHR ''_'' payload ! 0) = Inr oid"
    and "find_one (\<lambda>m. doc_id m = oid) (movies w) = Some content"
    and "resolve_target content (split_on CHR ''_'' payload) = Inr (Some mid, info)"
    and "mid \<noteq> 0"
    and "http env (copy_request env chat content mid info) = Json True (Some n)"
  shows "telegram_webhook env
           (Message \<lparr>msg_chat_id = chat, msg_text = Some (''/start '' @ payload)\<rparr>) w =
           (Inr (Response ''ok'' None),
            w\<lparr>sent := sent w @ [copy_request env chat content mid info],
               jobs := add_job (deletion_job env chat n) (jobs w)\<rparr>) \<and>
         run_date (deletion_job env chat n) = now env + 30 * 60 \<and>
         job_id (deletion_job env chat n) = deletion_job_id chat n \<and>
         job_args (deletion_job env chat n) = (chat, n) \<and>
         (\<forall>env2 js. filter (\<lambda>x. job_id x = deletion_job_id chat n)
                       (add_job (deletion_job env2 chat n) (add_job (deletion_job env chat n) js))
                     = [deletion_job env2 chat n]) \<and>
         (\<forall>env2 env3 js w2.
            jobs w2 = add_job (deletion_job env2 chat n) (add_job (deletion_job env chat n) js) \<and>
            now env2 + 30 * 60 \<le> now env3 \<longrightarrow>
            filter (\<lambda>x. job_id x = deletion_job_id chat n)
              (filter (\<lambda>x. run_date x \<le> now env3) (jobs w2)) = [deletion_job env2 chat n] \<and>
            sent (scheduler_wakeup env3 w2) =
              sent w2 @ map (\<lambda>j. DeleteMessage (fst (job_args j)) (snd (job_args j)))
                          (filter (\<lambda>x. run_date x \<le> now env3) (jobs w2)) \<and>
            filter (\<lambda>x. job_id x = deletion_job_id chat n) (jobs (scheduler_wakeup env3 w2)) = [])"
proof -
  have ne: "payload \<noteq> []" using assms(2) by (rule payload_of_ObjectId)
  note sp = start_payload_copied [OF assms(2-6)]
  have 1: "telegram_webhook env
           (Message \<lparr>msg_chat_id = chat, msg_text = Some (''/start '' @ payload)\<rparr>) w =
           (Inr (Response ''ok'' None),
            w\<lparr>sent := sent w @ [copy_request env chat content mid info],
               jobs := add_job (deletion_job env chat n) (jobs w)\<rparr>)"
    unfolding handle_start [OF refl ne assms(1)] sp by simp
  have 2: "run_date (deletion_job env chat n) = now env + 30 * 60"
    "job_id (deletion_job env chat n) = deletion_job_id chat n"
    "job_args (deletion_job env chat n) = (chat, n)"
    by (simp_all add: deletion_job_def)
  have 3: "filter (\<lambda>x. job_id x = deletion_job_id chat n)
             (add_job (deletion_job env2 chat n) (add_job (deletion_job env chat n) js))
           = [deletion_job env2 chat n]" for env2 js
    using add_job_twice [of "deletion_job env chat n" "deletion_job env2 chat n" js]
    by (simp add: job_id_deletion_job)
  have 4: "filter (\<lambda>x. job_id x = deletion_job_id chat n)
              (filter (\<lambda>x. run_date x \<le> now env3) (jobs w2)) = [deletion_job env2 chat n] \<and>
            sent (scheduler_wakeup env3 w2) =
              sent w2 @ map (\<lambda>j. DeleteMessage (fst (job_args j)) (snd (job_args j)))
                          (filter (\<lambda>x. run_date x \<le> now env3) (jobs w2)) \<and>
            filter (\<lambda>x. job_id x = deletion_job_id chat n) (jobs (scheduler_wakeup env3 w2)) = []"
    if j: "jobs w2 = add_job (deletion_job env2 chat n) (add_job (deletion_job env chat n) js)"
      and d: "now env2 + 30 * 60 \<le> now env3" for env2 env3 js w2
  proof -
    let ?k = "deletion_job_id chat n"
    let ?due = "\<lambda>x. run_date x \<le> now env3"
    have due: "?due (deletion_job env2 chat n)" using d by (simp add: deletion_job_def)
    have c: "filter (\<lambda>x. job_id x = ?k) (filter P ys) =
             filter P (filter (\<lambda>x. job_id x = ?k) ys)" for P and ys :: "job list"
      by (simp add: conj_commute)
    have a: "filter (\<lambda>x. job_id x = ?k) (filter ?due (jobs w2)) = [deletion_job env2 chat n]"
      unfolding c j 3 using due by simp
    have b: "filter (\<lambda>x. job_id x = ?k) (jobs (scheduler_wakeup env3 w2)) = []"
      unfolding conjunct2 [OF scheduler_wakeup_effect] c j 3 using due by simp
    from a b scheduler_wakeup_effect [of env3 w2] show ?thesis by simp
  qed
  from 1 2 3 4 show ?thesis by blast
qed

theorem deletion_job_scheduled_once_witness:
  "ObjectId (split_on CHR ''_'' (series_oid @ ''_S2_1080p'') ! 0) = Inr series_oid \<and>
   http example_env (copy_request example_env 77 example_series 200 ''Complete Season 2 (1080p)'')
     = Json True (Some 901) \<and>
   telegram_webhook example_env
     (Message \<lparr>msg_chat_id = 77, msg_text = Some (''/start '' @ series_oid @ ''_S2_1080p'')\<rparr>)
     example_world =
     (Inr (Response ''ok'' None),
      example_world\<lparr>sent := [copy_request example_env 77 example_series 200
                                 ''Complete Season 2 (1080p)''],
                     jobs := [deletion_job example_env 77 901]\<rparr>) \<and>
   deletion_job example_env 77 901 =
     \<lparr>job_id = ''del_77_901'', run_date = 2800, job_args = (77, 901)\<rparr> \<and>
   filter (\<lambda>x. job_id x = deletion_job_id 77 901)
     (add_job (deletion_job (example_env\<lparr>now := 1500\<rparr>) 77 901)
        (add_job (deletion_job example_env 77 901) [])) =
     [deletion_job (example_env\<lparr>now := 1500\<rparr>) 77 901] \<and>
   sent (scheduler_wakeup (example_env\<lparr>now := 5000\<rparr>)
          (example_world\<lparr>jobs := add_job (deletion_job (example_env\<lparr>now := 1500\<rparr>) 77 901)
                                      (add_job (deletion_job example_env 77 901) [])\<rparr>))
     = [DeleteMessage 77 901] \<and>
   jobs (scheduler_wakeup (example_env\<lparr>now := 5000\<rparr>)
          (example_world\<lparr>jobs := add_job (deletion_job (example_env\<lparr>now := 1500\<rparr>) 77 901)
                                      (add_job (deletion_job example_env 77 901) [])\<rparr>)) = []"
proof -
  let ?env2 = "example_env\<lparr>now := 1500\<rparr>"
  let ?env3 = "example_env\<lparr>now := 5000\<rparr>"
  let ?js = "add_job (deletion_job ?env2 77 901) (add_job (deletion_job example_env 77 901) [])"
  let ?w2 = "example_world\<lparr>jobs := ?js\<rparr>"
  have o: "ObjectId (split_on CHR ''_'' (series_oid @ ''_S2_1080p'') ! 0) = Inr series_oid"
    by (simp add: parts_pack_token ObjectId_series_oid)
  have z: "(200::int) \<noteq> 0" by simp
  have h: "http example_env
             (copy_request example_env 77 example_series 200 ''Complete Season 2 (1080p)'')
           = Json True (Some 901)"
    by (simp add: copy_request_def example_env_def example_http_def)
  note T = deletion_job_scheduled_once [OF no_space_pack_token o find_example_series
      resolve_pack_token z h]
  have e: "sent example_world = []" "jobs example_world = []"
    by (simp_all add: example_world_def)
  from T have 1: "telegram_webhook example_env
     (Message \<lparr>msg_chat_id = 77, msg_text = Some (''/start '' @ series_oid @ ''_S2_1080p'')\<rparr>)
     example_world =
     (Inr (Response ''ok'' None),
      example_world\<lparr>sent := [copy_request example_env 77 example_series 200
                                 ''Complete Season 2 (1080p)''],
                     jobs := [deletion_job example_env 77 901]\<rparr>)"
    by (simp add: e add_job_def)
  have k: "deletion_job_id 77 901 = ''del_77_901''"
    by (simp add: deletion_job_id_def show_int_def show_nat.simps digits_def)
  have 2: "deletion_job example_env 77 901 =
     \<lparr>job_id = ''del_77_901'', run_date = 2800, job_args = (77, 901)\<rparr>"
    by (simp add: deletion_job_def k example_env_def)
  from T have 3: "filter (\<lambda>x. job_id x = deletion_job_id 77 901) ?js
      = [deletion_job ?env2 77 901]"
    by blast
  have due: "jobs ?w2 = ?js \<and> now ?env2 + 30 * 60 \<le> now ?env3" by simp
  from T have "\<forall>env2 env3 js w2.
            jobs w2 = add_job (deletion_job env2 77 901) (add_job (deletion_job example_env 77 901) js) \<and>
            now env2 + 30 * 60 \<le> now env3 \<longrightarrow>
            filter (\<lambda>x. job_id x = deletion_job_id 77 901)
              (filter (\<lambda>x. run_date x \<le> now env3) (jobs w2)) = [deletion_job env2 77 901] \<and>
            sent (scheduler_wakeup env3 w2) =
              sent w2 @ map (\<lambda>j. DeleteMessage (fst (job_args j)) (snd (job_args j)))
                          (filter (\<lambda>x. run_date x \<le> now env3) (jobs w2)) \<and>
            filter (\<lambda>x. job_id x = deletion_job_id 77 901) (jobs (scheduler_wakeup env3 w2)) = []"
    by (elim conjE)
  then have 4: "sent (scheduler_wakeup ?env3 ?w2) =
              sent ?w2 @ map (\<lambda>j. DeleteMessage (fst (job_args j)) (snd (job_args j)))
                          (filter (\<lambda>x. run_date x \<le> now ?env3) (jobs ?w2))"
    using due by blast
  have 5: "sent (scheduler_wakeup ?env3 ?w2) = [DeleteMessage 77 901]"
    unfolding 4 by (simp add: e add_job_def deletion_job_def)
  have 6: "jobs (scheduler_wakeup ?env3 ?w2) = []"
    by (simp add: scheduler_wakeup_effect add_job_def deletion_job_def)
  from o h 1 2 3 5 6 show ?thesis by (intro conjI)
qed







lemma posts_outside_the_pipeline:
  "(post_chat_str post \<noteq> ADMIN_CHANNEL_ID env \<longrightarrow>
      telegram_webhook env (ChannelPost post) w =
        (Inr (Response ''ok'' (Some ''not_admin_channel'')), w)) \<and>
   (post_chat_str post = ADMIN_CHANNEL_ID env \<and> post_file_name post = Some filename \<and>
    parsed_with_title env filename = None \<longrightarrow>
      telegram_webhook env (ChannelPost post) w =
        (Inr (Response ''ok'' (Some ''parsing_failed'')), w))"
  by (simp add: telegram_webhook_def handle_channel_post_def)

text \<open>
  Claim C8. A post from another chat and a post whose file name gives no title are
  answered ok with the world untouched (lemma \<open>posts_outside_the_pipeline\<close>). The
  \<open>/start\<close> handler does not contain its failures: its \<open>except\<close> clauses send their notice
  outside any \<open>try\<close>. With Telegram out of reach, a \<open>/start\<close> command with a malformed
  token raises InvalidId inside the \<open>try\<close>, the handler attempts the error notice, that call
  raises, and the exception leaves the webhook; a bare \<open>/start\<close> leaves it the same way
  after the two attempts at the welcome message.
\<close>

theorem start_handler_notice_escapes:
  "telegram_webhook offline_env (Message \<lparr>msg_chat_id = 5, msg_text = Some ''/start zz''\<rparr>)
     example_world =
     (Inl RequestException, example_world\<lparr>sent := [unexpected_error_notice 5]\<rparr>) \<and>
   telegram_webhook offline_env (Message \<lparr>msg_chat_id = 5, msg_text = Some ''/start''\<rparr>)
     example_world =
     (Inl RequestException,
      example_world\<lparr>sent := [SendMessage 5 (welcome_message offline_env) (Some ''/''),
                               SendMessage 5 (welcome_message offline_env) None]\<rparr>)"
proof -
  have h: "http offline_env = (\<lambda>rq. Raises)" by (simp add: offline_env_def)
  have e: "sent example_world = []" by (simp add: example_world_def)
  have 1: "telegram_webhook offline_env
       (Message \<lparr>msg_chat_id = 5, msg_text = Some ''/start zz''\<rparr>) example_world =
     (Inl RequestException, example_world\<lparr>sent := [unexpected_error_notice 5]\<rparr>)"
    by (simp add: telegram_webhook_def handle_message_def startswith_def py_split_def
        is_space_def start_payload_def ObjectId_def http_call_def h e Let_def)
  have 2: "telegram_webhook offline_env
       (Message \<lparr>msg_chat_id = 5, msg_text = Some ''/start''\<rparr>) example_world =
     (Inl RequestException,
      example_world\<lparr>sent := [SendMessage 5 (welcome_message offline_env) (Some ''/''),
                               SendMessage 5 (welcome_message offline_env) None]\<rparr>)"
    by (simp add: telegram_webhook_def handle_message_def startswith_def py_split_def
        is_space_def http_call_def h e Let_def)
  from 1 2 show ?thesis by (rule conjI)
qed

end
